theory Spec2Isabelle
  imports Complex_Main
begin

section \<open>Values of type double\<close>

text \<open>
  The fitter computes on C doubles and relies on their special values: it tests
  \<^verbatim>\<open>!(alpha >= 0.0)\<close> to catch NaN, calls \<^verbatim>\<open>isfinite\<close>, and divides by quantities that
  may be zero. A double is modelled as a finite real or one of the three special values.
  Finite arithmetic is exact: rounding, overflow to infinity and the sign of zero are
  not modelled (a finite non-zero value divided by zero gives the infinity of the
  dividend's sign). The special values follow IEEE 754: NaN is absorbing, every comparison
  with NaN is false, \<open>inf - inf\<close>, \<open>0 * inf\<close>, \<open>0 / 0\<close> and \<open>inf / inf\<close> are NaN.
\<close>

datatype double = Fin real | PInf | NInf | NaN

instantiation double :: "{plus, uminus, times, divide, ord}"
begin

fun plus_double :: "double \<Rightarrow> double \<Rightarrow> double" where
  "plus_double NaN y = NaN"
| "plus_double x NaN = NaN"
| "plus_double (Fin a) (Fin b) = Fin (a + b)"
| "plus_double PInf NInf = NaN"
| "plus_double NInf PInf = NaN"
| "plus_double PInf y = PInf"
| "plus_double NInf y = NInf"
| "plus_double (Fin a) y = y"

fun uminus_double :: "double \<Rightarrow> double" where
  "uminus_double (Fin a) = Fin (- a)"
| "uminus_double PInf = NInf"
| "uminus_double NInf = PInf"
| "uminus_double NaN = NaN"

fun times_double :: "double \<Rightarrow> double \<Rightarrow> double" where
  "times_double NaN y = NaN"
| "times_double x NaN = NaN"
| "times_double (Fin a) (Fin b) = Fin (a * b)"
| "times_double (Fin a) PInf = (if a = 0 then NaN else if 0 < a then PInf else NInf)"
| "times_double (Fin a) NInf = (if a = 0 then NaN else if 0 < a then NInf else PInf)"
| "times_double PInf (Fin b) = (if b = 0 then NaN else if 0 < b then PInf else NInf)"
| "times_double NInf (Fin b) = (if b = 0 then NaN else if 0 < b then NInf else PInf)"
| "times_double PInf PInf = PInf"
| "times_double PInf NInf = NInf"
| "times_double NInf PInf = NInf"
| "times_double NInf NInf = PInf"

fun divide_double :: "double \<Rightarrow> double \<Rightarrow> double" where
  "divide_double NaN y = NaN"
| "divide_double x NaN = NaN"
| "divide_double (Fin a) (Fin b) =
     (if b \<noteq> 0 then Fin (a / b)
      else if a = 0 then NaN else if 0 < a then PInf else NInf)"
| "divide_double (Fin a) y = Fin 0"
| "divide_double x PInf = NaN"
| "divide_double x NInf = NaN"
| "divide_double PInf (Fin b) = (if 0 \<le> b then PInf else NInf)"
| "divide_double NInf (Fin b) = (if 0 \<le> b then NInf else PInf)"

fun less_double :: "double \<Rightarrow> double \<Rightarrow> bool" where
  "less_double NaN y = False"
| "less_double x NaN = False"
| "less_double (Fin a) (Fin b) = (a < b)"
| "less_double x NInf = False"
| "less_double PInf y = False"
| "less_double x y = True"

fun less_eq_double :: "double \<Rightarrow> double \<Rightarrow> bool" where
  "less_eq_double NaN y = False"
| "less_eq_double x NaN = False"
| "less_eq_double (Fin a) (Fin b) = (a \<le> b)"
| "less_eq_double NInf y = True"
| "less_eq_double x PInf = True"
| "less_eq_double x y = False"

instance ..

end

instantiation double :: "{minus, inverse}"
begin

definition minus_double :: "double \<Rightarrow> double \<Rightarrow> double" where
  "minus_double x y = x + (- y)"

definition inverse_double :: "double \<Rightarrow> double" where
  "inverse_double x = divide (Fin 1) x"

instance ..

end

text \<open>The C operators \<^verbatim>\<open>==\<close> and \<^verbatim>\<open>!=\<close>: NaN is unequal to everything, itself included.\<close>

definition d_eq :: "double \<Rightarrow> double \<Rightarrow> bool" where
  "d_eq a b = (a \<noteq> NaN \<and> b \<noteq> NaN \<and> a = b)"

definition d_ne :: "double \<Rightarrow> double \<Rightarrow> bool" where
  "d_ne a b = (\<not> d_eq a b)"

text \<open>\<^verbatim>\<open>sqrt\<close> and \<^verbatim>\<open>isfinite\<close> of \<^verbatim>\<open>math.h\<close>.\<close>

fun d_sqrt :: "double \<Rightarrow> double" where
  "d_sqrt (Fin a) = (if a < 0 then NaN else Fin (sqrt a))"
| "d_sqrt PInf = PInf"
| "d_sqrt NInf = NaN"
| "d_sqrt NaN = NaN"

fun isfinite :: "double \<Rightarrow> bool" where
  "isfinite (Fin a) = True"
| "isfinite PInf = False"
| "isfinite NInf = False"
| "isfinite NaN = False"

section \<open>Vector helpers\<close>

text \<open>
  A pointer to doubles is modelled as the list of the doubles stored from that address
  on: \<^verbatim>\<open>p[j]\<close> is \<open>p ! j\<close> and \<^verbatim>\<open>p + k\<close> is \<open>drop k p\<close>. Every helper takes the
  number of coordinates \<open>dims\<close> explicitly, as the C functions do, and a vector that a
  function writes is returned as a fresh list of \<open>dims\<close> doubles.
\<close>

text \<open>
  The header \<^verbatim>\<open>curve_fit_inline.h\<close> with the vector helpers is not among the sources.
  The specification lists them (the assumed VecOps contract): copy, zero, add, subtract,
  scale in place, fused \<open>x += y*s\<close>, fused \<open>x = a - b*s\<close>, fused \<open>x = a + b*s\<close>, dot product,
  squared length, length, and the mirror image \<open>2*P0 - P1\<close> of a handle about its anchor.
  The comments of the source give the same reading (\<^verbatim>\<open>p1 = p0 - (tan_l * alpha_l)\<close>,
  \<^verbatim>\<open>p2 = p3 + (tan_r * alpha_r)\<close>).
\<close>

text \<open>Modelled from the spec: \<^verbatim>\<open>sq\<close> of the missing header, the square of a double ("squared internally").\<close>

definition sq :: "double \<Rightarrow> double" where
  "sq d = d * d"

text \<open>Modelled from the spec: \<^verbatim>\<open>zero_vn\<close> of the missing header, "zero", a vector of \<open>dims\<close> zeros.\<close>

definition zero_vn :: "nat \<Rightarrow> double list" where
  "zero_vn dims = map (\<lambda>j. Fin 0) [0..<dims]"

text \<open>Modelled from the spec: \<^verbatim>\<open>copy_vnvn\<close> of the missing header, "copy", the first \<open>dims\<close> coordinates of \<open>v1\<close>.\<close>

definition copy_vnvn :: "double list \<Rightarrow> nat \<Rightarrow> double list" where
  "copy_vnvn v1 dims = map (\<lambda>j. v1 ! j) [0..<dims]"

text \<open>Modelled from the spec: \<^verbatim>\<open>dot_vnvn\<close> of the missing header, "dot product".\<close>

definition dot_vnvn :: "double list \<Rightarrow> double list \<Rightarrow> nat \<Rightarrow> double" where
  "dot_vnvn v0 v1 dims = foldl (\<lambda>d j. d + v0 ! j * v1 ! j) (Fin 0) [0..<dims]"

text \<open>Modelled from the spec: \<^verbatim>\<open>len_squared_vn\<close> of the missing header, "squared length" of a vector.\<close>

definition len_squared_vn :: "double list \<Rightarrow> nat \<Rightarrow> double" where
  "len_squared_vn v0 dims = foldl (\<lambda>d j. d + sq (v0 ! j)) (Fin 0) [0..<dims]"

text \<open>Modelled from the spec: \<^verbatim>\<open>len_squared_vnvn\<close> of the missing header, "squared length" of the difference of two vectors.\<close>

definition len_squared_vnvn :: "double list \<Rightarrow> double list \<Rightarrow> nat \<Rightarrow> double" where
  "len_squared_vnvn v0 v1 dims = foldl (\<lambda>d j. d + sq (v0 ! j - v1 ! j)) (Fin 0) [0..<dims]"

text \<open>Modelled from the spec: \<^verbatim>\<open>len_vnvn\<close> of the missing header, "length" of the difference of two vectors, the distance of two points.\<close>

definition len_vnvn :: "double list \<Rightarrow> double list \<Rightarrow> nat \<Rightarrow> double" where
  "len_vnvn v0 v1 dims = d_sqrt (len_squared_vnvn v0 v1 dims)"

text \<open>Modelled from the spec: \<^verbatim>\<open>mul_vnvn_fl\<close> of the missing header, "scale", \<open>x = a * s\<close>.\<close>

definition mul_vnvn_fl :: "double list \<Rightarrow> double \<Rightarrow> nat \<Rightarrow> double list" where
  "mul_vnvn_fl v0 f dims = map (\<lambda>j. v0 ! j * f) [0..<dims]"

text \<open>Modelled from the spec: \<^verbatim>\<open>imul_vn_fl\<close> of the missing header, "scale in place", \<open>x *= s\<close>.\<close>

definition imul_vn_fl :: "double list \<Rightarrow> double \<Rightarrow> nat \<Rightarrow> double list" where
  "imul_vn_fl v0 f dims = map (\<lambda>j. v0 ! j * f) [0..<dims]"

text \<open>Modelled from the spec: \<^verbatim>\<open>iadd_vnvn\<close> of the missing header, "add" in place, \<open>x += y\<close>.\<close>

definition iadd_vnvn :: "double list \<Rightarrow> double list \<Rightarrow> nat \<Rightarrow> double list" where
  "iadd_vnvn v0 v1 dims = map (\<lambda>j. v0 ! j + v1 ! j) [0..<dims]"

text \<open>Modelled from the spec: \<^verbatim>\<open>isub_vnvn\<close> of the missing header, "subtract" in place, \<open>x -= y\<close>.\<close>

definition isub_vnvn :: "double list \<Rightarrow> double list \<Rightarrow> nat \<Rightarrow> double list" where
  "isub_vnvn v0 v1 dims = map (\<lambda>j. v0 ! j - v1 ! j) [0..<dims]"

text \<open>Modelled from the spec: \<^verbatim>\<open>madd_vn_vnvn_fl\<close> of the missing header, fused \<open>x = a + b * s\<close>.\<close>

definition madd_vn_vnvn_fl :: "double list \<Rightarrow> double list \<Rightarrow> double \<Rightarrow> nat \<Rightarrow> double list" where
  "madd_vn_vnvn_fl v0 v1 f dims = map (\<lambda>j. v0 ! j + v1 ! j * f) [0..<dims]"

text \<open>Modelled from the spec: \<^verbatim>\<open>msub_vn_vnvn_fl\<close> of the missing header, fused \<open>x = a - b * s\<close>.\<close>

definition msub_vn_vnvn_fl :: "double list \<Rightarrow> double list \<Rightarrow> double \<Rightarrow> nat \<Rightarrow> double list" where
  "msub_vn_vnvn_fl v0 v1 f dims = map (\<lambda>j. v0 ! j - v1 ! j * f) [0..<dims]"

text \<open>Modelled from the spec: \<^verbatim>\<open>miadd_vn_vn_fl\<close> of the missing header, fused \<open>x += y * s\<close>.\<close>

definition miadd_vn_vn_fl :: "double list \<Rightarrow> double list \<Rightarrow> double \<Rightarrow> nat \<Rightarrow> double list" where
  "miadd_vn_vn_fl v_out v0 f dims = map (\<lambda>j. v_out ! j + v0 ! j * f) [0..<dims]"

text \<open>Modelled from the spec: \<^verbatim>\<open>flip_vn_vnvn\<close> of the missing header, the mirror image of \<open>v1\<close> about \<open>v0\<close>, \<open>2 * v0 - v1\<close>.\<close>

definition flip_vn_vnvn :: "double list \<Rightarrow> double list \<Rightarrow> nat \<Rightarrow> double list" where
  "flip_vn_vnvn v0 v1 dims = map (\<lambda>j. Fin 2 * v0 ! j - v1 ! j) [0..<dims]"

text \<open>
  Four helpers of the missing header are not determined by the specification: the
  tolerance of \<^verbatim>\<open>is_almost_zero\<close> and of \<^verbatim>\<open>equals_vnvn\<close> ("equality within epsilon"),
  what \<^verbatim>\<open>normalize_vn_vnvn\<close> (\<open>x = normalize(a - b)\<close>) returns for a zero difference, and
  what \<^verbatim>\<open>max\<close> returns on NaN. The functions that call them take them as a parameter.
\<close>

record inline_ops =
  is_almost_zero :: "double \<Rightarrow> bool"
  equals_vnvn :: "double list \<Rightarrow> double list \<Rightarrow> nat \<Rightarrow> bool"
  normalize_vn_vnvn :: "double list \<Rightarrow> double list \<Rightarrow> nat \<Rightarrow> double list"
  max_fn :: "double \<Rightarrow> double \<Rightarrow> double"

section \<open>Cubic type and evaluation\<close>

text \<open>
  \<^verbatim>\<open>struct Cubic\<close>: the span of input intervals and \<open>4 * dims\<close> doubles, the four control
  points one after the other. The \<^verbatim>\<open>next\<close> pointer of the linked list is the tail of
  the list \<open>items\<close> below.
\<close>

record Cubic =
  orig_span :: nat
  pt_data :: "double list"

definition CUBIC_PT :: "Cubic \<Rightarrow> nat \<Rightarrow> nat \<Rightarrow> double list" where
  "CUBIC_PT cubic index dims = drop (index * dims) (pt_data cubic)"

definition cubic_evaluate :: "Cubic \<Rightarrow> double \<Rightarrow> nat \<Rightarrow> double list" where
  "cubic_evaluate cubic t dims =
     (let p0 = CUBIC_PT cubic 0 dims; p1 = CUBIC_PT cubic 1 dims;
          p2 = CUBIC_PT cubic 2 dims; p3 = CUBIC_PT cubic 3 dims;
          s = Fin 1 - t
      in map (\<lambda>j.
           let p01 = (p0 ! j * s) + (p1 ! j * t);
               p12 = (p1 ! j * s) + (p2 ! j * t);
               p23 = (p2 ! j * s) + (p3 ! j * t)
           in (((p01 * s) + (p12 * t)) * s) + (((p12 * s) + (p23 * t)) * t))
         [0..<dims])"

definition cubic_calc_point :: "Cubic \<Rightarrow> double \<Rightarrow> nat \<Rightarrow> double list" where
  "cubic_calc_point cubic t dims =
     (let p0 = CUBIC_PT cubic 0 dims; p1 = CUBIC_PT cubic 1 dims;
          p2 = CUBIC_PT cubic 2 dims; p3 = CUBIC_PT cubic 3 dims;
          s = Fin 1 - t
      in map (\<lambda>j. p0 ! j * s * s * s +
                   Fin 3 * t * s * (s * p1 ! j + t * p2 ! j) + t * t * t * p3 ! j)
         [0..<dims])"

definition cubic_calc_speed :: "Cubic \<Rightarrow> double \<Rightarrow> nat \<Rightarrow> double list" where
  "cubic_calc_speed cubic t dims =
     (let p0 = CUBIC_PT cubic 0 dims; p1 = CUBIC_PT cubic 1 dims;
          p2 = CUBIC_PT cubic 2 dims; p3 = CUBIC_PT cubic 3 dims;
          s = Fin 1 - t
      in map (\<lambda>j. Fin 3 * ((p1 ! j - p0 ! j) * s * s + Fin 2 *
                            (p2 ! j - p0 ! j) * s * t +
                            (p3 ! j - p2 ! j) * t * t))
         [0..<dims])"

definition cubic_calc_acceleration :: "Cubic \<Rightarrow> double \<Rightarrow> nat \<Rightarrow> double list" where
  "cubic_calc_acceleration cubic t dims =
     (let p0 = CUBIC_PT cubic 0 dims; p1 = CUBIC_PT cubic 1 dims;
          p2 = CUBIC_PT cubic 2 dims; p3 = CUBIC_PT cubic 3 dims;
          s = Fin 1 - t
      in map (\<lambda>j. Fin 6 * ((p2 ! j - Fin 2 * p1 ! j + p0 ! j) * s +
                            (p3 ! j - Fin 2 * p2 ! j + p1 ! j) * t))
         [0..<dims])"

text \<open>
  \<^verbatim>\<open>cubic_calc_error\<close>: the loop runs over \<open>i = 1, ..., points_offset_len - 2\<close> and
  \<^verbatim>\<open>pt_real\<close> advances by \<open>dims\<close> with \<open>i\<close>. The pair returned is
  \<open>(*r_error_sq_max, *r_error_index)\<close>. (The bound \<open>points_offset_len - 1\<close> is unsigned; the
  fitter calls the function with three points or more.)
\<close>

definition cubic_calc_error ::
  "Cubic \<Rightarrow> double list \<Rightarrow> nat \<Rightarrow> double list \<Rightarrow> nat \<Rightarrow> double \<times> nat" where
  "cubic_calc_error cubic points_offset points_offset_len u dims =
     foldl (\<lambda>(error_sq_max, error_index) i.
              let pt_real = drop (i * dims) points_offset;
                  pt_eval = cubic_evaluate cubic (u ! i) dims;
                  err_sq = len_squared_vnvn pt_real pt_eval dims
              in if err_sq \<ge> error_sq_max then (err_sq, i) else (error_sq_max, error_index))
       (Fin 0, 0) [1..<points_offset_len - 1]"

subsection \<open>Bezier multipliers\<close>

definition B1 :: "double \<Rightarrow> double" where
  "B1 u = (let tmp = Fin 1 - u in Fin 3 * u * tmp * tmp)"

definition B2 :: "double \<Rightarrow> double" where
  "B2 u = Fin 3 * u * u * (Fin 1 - u)"

definition B0plusB1 :: "double \<Rightarrow> double" where
  "B0plusB1 u = (let tmp = Fin 1 - u in tmp * tmp * (Fin 1 + Fin 2 * u))"

definition B2plusB3 :: "double \<Rightarrow> double" where
  "B2plusB3 u = u * u * (Fin 3 - Fin 2 * u)"

section \<open>Least-squares fit of one cubic\<close>

text \<open>
  \<^verbatim>\<open>points_calc_center_weighted\<close>. The loop state is
  \<open>(r_center, w_tot, w_prev, pt_curr, pt_next)\<close>; \<^verbatim>\<open>pt_prev\<close> is only read before the loop.
\<close>

definition points_calc_center_weighted :: "double list \<Rightarrow> nat \<Rightarrow> nat \<Rightarrow> double list" where
  "points_calc_center_weighted points_offset points_offset_len dims =
     (let pt_prev = drop ((points_offset_len - 2) * dims) points_offset;
          pt_curr = drop dims pt_prev;
          pt_next = points_offset;
          w_prev = len_vnvn pt_prev pt_curr dims;
          (r_center, w_tot, w_prev', pt_curr', pt_next') =
            foldl (\<lambda>(r_center, w_tot, w_prev, pt_curr, pt_next) i_next.
                     let w_next = len_vnvn pt_curr pt_next dims;
                         w = w_prev + w_next
                     in (miadd_vn_vn_fl r_center pt_curr w dims, w_tot + w, w_next,
                         pt_next, drop dims pt_next))
              (zero_vn dims, Fin 0, w_prev, pt_curr, pt_next) [0..<points_offset_len]
      in if d_ne w_tot (Fin 0) then imul_vn_fl r_center (Fin 1 / w_tot) dims else r_center)"

text \<open>
  \<^verbatim>\<open>cubic_from_points\<close>, in the order of the source. First the inner loop over the
  coordinates that fills \<^verbatim>\<open>tmp\<close> for one sample \<open>pt\<close>.
\<close>

definition cubic_from_points_tmp ::
  "double list \<Rightarrow> double list \<Rightarrow> double list \<Rightarrow> double \<Rightarrow> double \<Rightarrow> nat \<Rightarrow> double list" where
  "cubic_from_points_tmp pt p0 p3 b0_plus_b1 b2_plus_b3 dims =
     map (\<lambda>j. (pt ! j - (p0 ! j * b0_plus_b1)) + (p3 ! j * b2_plus_b3)) [0..<dims]"

text \<open>
  The loop over the samples accumulates \<open>x[0], x[1]\<close> and the matrix
  \<open>c[0][0], c[0][1], c[1][0], c[1][1]\<close>, all zero at the start.
\<close>

definition cubic_from_points_sums ::
  "double list \<Rightarrow> nat \<Rightarrow> double list \<Rightarrow> double list \<Rightarrow> double list \<Rightarrow> nat
   \<Rightarrow> double \<times> double \<times> double \<times> double \<times> double \<times> double" where
  "cubic_from_points_sums points_offset points_offset_len u_prime tan_l tan_r dims =
     (let p0 = points_offset;
          p3 = drop ((points_offset_len - 1) * dims) points_offset
      in foldl (\<lambda>(x0, x1, c00, c01, c10, c11) i.
                  let pt = drop (i * dims) points_offset;
                      a0 = mul_vnvn_fl tan_l (B1 (u_prime ! i)) dims;
                      a1 = mul_vnvn_fl tan_r (B2 (u_prime ! i)) dims;
                      c00' = c00 + dot_vnvn a0 a0 dims;
                      c01' = c01 + dot_vnvn a0 a1 dims;
                      c11' = c11 + dot_vnvn a1 a1 dims;
                      c10' = c01';
                      b0_plus_b1 = B0plusB1 (u_prime ! i);
                      b2_plus_b3 = B2plusB3 (u_prime ! i);
                      tmp = cubic_from_points_tmp pt p0 p3 b0_plus_b1 b2_plus_b3 dims
                  in (x0 + dot_vnvn a0 tmp dims, x1 + dot_vnvn a1 tmp dims,
                      c00', c01', c10', c11'))
           (Fin 0, Fin 0, Fin 0, Fin 0, Fin 0, Fin 0) [0..<points_offset_len])"

text \<open>Cramer's rule on the sums; the pair is \<open>(alpha_l, alpha_r)\<close>.\<close>

definition cubic_from_points_solve ::
  "inline_ops \<Rightarrow> double \<times> double \<times> double \<times> double \<times> double \<times> double \<Rightarrow> double \<times> double" where
  "cubic_from_points_solve ops acc =
     (case acc of (x0, x1, c00, c01, c10, c11) \<Rightarrow>
        let det_C0_C1 = c00 * c11 - c01 * c10;
            det_C_0X = x1 * c00 - x0 * c01;
            det_X_C1 = x0 * c11 - x1 * c01;
            det_C0_C1' = (if is_almost_zero ops det_C0_C1
                          then c00 * c11 * Fin (10 / 10 ^ 12) else det_C0_C1)
        in (det_X_C1 / det_C0_C1', det_C_0X / det_C0_C1'))"

text \<open>The check that follows ("flip check to catch nan values").\<close>

definition cubic_from_points_alpha_check ::
  "double list \<Rightarrow> double list \<Rightarrow> nat \<Rightarrow> double \<times> double \<Rightarrow> double \<times> double" where
  "cubic_from_points_alpha_check p0 p3 dims alphas =
     (case alphas of (alpha_l, alpha_r) \<Rightarrow>
        if \<not> (alpha_l \<ge> Fin 0) \<or> \<not> (alpha_r \<ge> Fin 0)
        then (len_vnvn p0 p3 dims / Fin 3, len_vnvn p0 p3 dims / Fin 3)
        else (alpha_l, alpha_r))"

text \<open>The handles before clamping: the pair \<open>(p1, p2)\<close>.\<close>

definition cubic_from_points_handles ::
  "double list \<Rightarrow> double list \<Rightarrow> double list \<Rightarrow> double list \<Rightarrow> nat \<Rightarrow> double \<times> double
   \<Rightarrow> double list \<times> double list" where
  "cubic_from_points_handles p0 p3 tan_l tan_r dims alphas =
     (case alphas of (alpha_l, alpha_r) \<Rightarrow>
        (msub_vn_vnvn_fl p0 tan_l alpha_l dims, madd_vn_vnvn_fl p3 tan_r alpha_r dims))"

text \<open>Clamping of the handles to three times the radius of the points about their centre.\<close>

definition cubic_from_points_clamp ::
  "inline_ops \<Rightarrow> double list \<Rightarrow> nat \<Rightarrow> double list \<Rightarrow> double list \<Rightarrow> nat
   \<Rightarrow> double list \<times> double list \<Rightarrow> double list \<times> double list" where
  "cubic_from_points_clamp ops points_offset points_offset_len tan_l tan_r dims handles =
     (case handles of (p1, p2) \<Rightarrow>
        let p0 = points_offset;
            p3 = drop ((points_offset_len - 1) * dims) points_offset;
            center = points_calc_center_weighted points_offset points_offset_len dims;
            clamp_scale = Fin 3;
            dist_sq_max =
              foldl (\<lambda>dist_sq_max i.
                       let pt = drop (i * dims) points_offset;
                           dist_sq_test =
                             foldl (\<lambda>d j. d + sq ((pt ! j - center ! j) * clamp_scale))
                               (Fin 0) [0..<dims]
                       in max_fn ops dist_sq_max dist_sq_test)
                (Fin 0) [0..<points_offset_len];
            p1_dist_sq = len_squared_vnvn center p1 dims;
            p2_dist_sq = len_squared_vnvn center p2 dims;
            (p1a, p2a, p1a_dist_sq, p2a_dist_sq) =
              (if p1_dist_sq > dist_sq_max \<or> p2_dist_sq > dist_sq_max
               then
                 let alpha_l = len_vnvn p0 p3 dims / Fin 3;
                     alpha_r = alpha_l;
                     p1' = map (\<lambda>j. p0 ! j - (tan_l ! j * alpha_l)) [0..<dims];
                     p2' = map (\<lambda>j. p3 ! j + (tan_r ! j * alpha_r)) [0..<dims]
                 in (p1', p2', len_squared_vnvn center p1' dims,
                     len_squared_vnvn center p2' dims)
               else (p1, p2, p1_dist_sq, p2_dist_sq));
            p1b = (if p1a_dist_sq > dist_sq_max
                   then iadd_vnvn
                          (imul_vn_fl (isub_vnvn p1a center dims)
                             (d_sqrt dist_sq_max / d_sqrt p1a_dist_sq) dims)
                          center dims
                   else p1a);
            p2b = (if p2a_dist_sq > dist_sq_max
                   then iadd_vnvn
                          (imul_vn_fl (isub_vnvn p2a center dims)
                             (d_sqrt dist_sq_max / d_sqrt p2a_dist_sq) dims)
                          center dims
                   else p2a)
        in (p1b, p2b))"

definition cubic_from_points ::
  "inline_ops \<Rightarrow> double list \<Rightarrow> nat \<Rightarrow> double list \<Rightarrow> double list \<Rightarrow> double list \<Rightarrow> nat
   \<Rightarrow> Cubic" where
  "cubic_from_points ops points_offset points_offset_len u_prime tan_l tan_r dims =
     (let p0 = points_offset;
          p3 = drop ((points_offset_len - 1) * dims) points_offset;
          alphas = cubic_from_points_alpha_check p0 p3 dims
                     (cubic_from_points_solve ops
                        (cubic_from_points_sums points_offset points_offset_len u_prime
                           tan_l tan_r dims));
          handles = cubic_from_points_handles p0 p3 tan_l tan_r dims alphas;
          (p1, p2) = cubic_from_points_clamp ops points_offset points_offset_len
                       tan_l tan_r dims handles
      in \<lparr>orig_span = points_offset_len - 1,
          pt_data = copy_vnvn p0 dims @ p1 @ p2 @ copy_vnvn p3 dims\<rparr>)"

section \<open>Parameterization\<close>

text \<open>
  \<^verbatim>\<open>points_calc_coord_length_cache\<close>: entry \<open>0\<close> is zero, entry \<open>i\<close> the distance of point
  \<open>i\<close> from point \<open>i - 1\<close>. \<^verbatim>\<open>points_calc_coord_length\<close> reads entries \<open>1, ..., n - 1\<close> of the
  cache, accumulates them into \<open>r_u\<close> and divides every entry by the last; the assertions
  are compiled out (\<^verbatim>\<open>NDEBUG\<close>), so a zero total is divided by all the same.
\<close>

definition points_calc_coord_length_cache :: "double list \<Rightarrow> nat \<Rightarrow> nat \<Rightarrow> double list" where
  "points_calc_coord_length_cache points_offset points_offset_len dims =
     Fin 0 # map (\<lambda>i. len_vnvn (drop (i * dims) points_offset)
                          (drop ((i - 1) * dims) points_offset) dims)
               [1..<points_offset_len]"

definition points_calc_coord_length ::
  "double list \<Rightarrow> nat \<Rightarrow> nat \<Rightarrow> double list \<Rightarrow> double list" where
  "points_calc_coord_length points_offset points_offset_len dims points_length_cache =
     (let r_u = foldl (\<lambda>r_u i. r_u @ [r_u ! (i - 1) + points_length_cache ! i])
                  [Fin 0] [1..<points_offset_len];
          w = r_u ! (points_offset_len - 1)
      in map (\<lambda>i. r_u ! i / w) [0..<points_offset_len])"

section \<open>Reparameterization\<close>

definition cubic_find_root :: "Cubic \<Rightarrow> double list \<Rightarrow> double \<Rightarrow> nat \<Rightarrow> double" where
  "cubic_find_root cubic p u dims =
     (let q0_u = cubic_calc_point cubic u dims;
          q1_u = cubic_calc_speed cubic u dims;
          q2_u = cubic_calc_acceleration cubic u dims;
          q0_u' = isub_vnvn q0_u p dims
      in u - dot_vnvn q0_u' q1_u dims /
             (len_squared_vn q1_u dims + dot_vnvn q0_u' q2_u dims))"

definition compare_double_fn :: "double \<Rightarrow> double \<Rightarrow> int" where
  "compare_double_fn a b = (if a > b then 1 else if a < b then - 1 else 0)"

text \<open>
  \<^verbatim>\<open>qsort\<close> of \<^verbatim>\<open>stdlib.h\<close> sorts the first \<open>nmemb\<close> elements into ascending order
  according to the comparison function; the C standard leaves the algorithm open. The
  model inserts the elements one by one. On finite doubles \<^verbatim>\<open>compare_double_fn\<close> is a
  total order whose equivalent elements are equal, so every sorting algorithm returns the
  same array there, and the fitter sorts finite values only.
\<close>

fun qsort_insert :: "('a \<Rightarrow> 'a \<Rightarrow> int) \<Rightarrow> 'a \<Rightarrow> 'a list \<Rightarrow> 'a list" where
  "qsort_insert compar x [] = [x]"
| "qsort_insert compar x (y # ys) =
     (if compar x y \<le> 0 then x # y # ys else y # qsort_insert compar x ys)"

definition qsort :: "'a list \<Rightarrow> nat \<Rightarrow> ('a \<Rightarrow> 'a \<Rightarrow> int) \<Rightarrow> 'a list" where
  "qsort base nmemb compar = foldr (qsort_insert compar) (take nmemb base) [] @ drop nmemb base"

text \<open>
  \<^verbatim>\<open>cubic_reparameterize\<close> returns \<^verbatim>\<open>false\<close> (here \<open>None\<close>) or \<^verbatim>\<open>true\<close> with the buffer
  \<open>r_u_prime\<close> filled (here \<open>Some r_u_prime\<close>). The first loop leaves the function at the
  first root that is not finite.
\<close>

fun cubic_reparameterize_roots ::
  "Cubic \<Rightarrow> double list \<Rightarrow> double list \<Rightarrow> nat \<Rightarrow> nat list \<Rightarrow> double list option" where
  "cubic_reparameterize_roots cubic points_offset u dims [] = Some []"
| "cubic_reparameterize_roots cubic points_offset u dims (i # rest) =
     (let r = cubic_find_root cubic (drop (i * dims) points_offset) (u ! i) dims
      in if \<not> isfinite r then None
         else map_option ((#) r) (cubic_reparameterize_roots cubic points_offset u dims rest))"

definition cubic_reparameterize ::
  "Cubic \<Rightarrow> double list \<Rightarrow> nat \<Rightarrow> double list \<Rightarrow> nat \<Rightarrow> double list option" where
  "cubic_reparameterize cubic points_offset points_offset_len u dims =
     (case cubic_reparameterize_roots cubic points_offset u dims [0..<points_offset_len] of
        None \<Rightarrow> None
      | Some r_u_prime \<Rightarrow>
          let r_u_prime' = qsort r_u_prime points_offset_len compare_double_fn
          in if (r_u_prime' ! 0 < Fin 0) \<or> (r_u_prime' ! (points_offset_len - 1) > Fin 1)
             then None
             else Some r_u_prime')"

section \<open>The list of fitted cubics\<close>

text \<open>
  \<^verbatim>\<open>struct CubicList\<close>: the head of \<open>items\<close> is the cubic prepended last. A cubic
  obtained from \<^verbatim>\<open>cubic_alloc\<close> has indeterminate contents until its fields are assigned;
  \<^verbatim>\<open>cubic_init\<close> assigns the four control points and nothing else.
\<close>

record CubicList =
  items :: "Cubic list"
  len :: nat
  list_dims :: nat

definition cubic_init ::
  "Cubic \<Rightarrow> double list \<Rightarrow> double list \<Rightarrow> double list \<Rightarrow> double list \<Rightarrow> nat \<Rightarrow> Cubic" where
  "cubic_init cubic p0 p1 p2 p3 dims =
     cubic\<lparr>pt_data := copy_vnvn p0 dims @ copy_vnvn p1 dims @ copy_vnvn p2 dims @ copy_vnvn p3 dims\<rparr>"

definition cubic_list_prepend :: "CubicList \<Rightarrow> Cubic \<Rightarrow> CubicList" where
  "cubic_list_prepend clist cubic = clist\<lparr>items := cubic # items clist, len := len clist + 1\<rparr>"

text \<open>
  Reads that leave the memory of the caller's arrays, and the read through the null
  \<open>items\<close> pointer of an empty list, are undefined behaviour in C; the model returns them
  as errors. An \<^verbatim>\<open>unsigned int\<close> is a natural number below \<open>2^32\<close>; a subtraction that can
  wrap around is written with \<open>uint_sub\<close>, and the flat lengths that the float entry point
  computes as products with \<open>uint_mul\<close>.
\<close>

datatype error = OutOfBounds | NullPointer

definition uint_sub :: "nat \<Rightarrow> nat \<Rightarrow> nat" where
  "uint_sub a b = (a + 4294967296 - b) mod 4294967296"


text \<open>
  \<^verbatim>\<open>cubic_list_as_array\<close> fills the array backwards, one chunk of \<open>3 * dims\<close> doubles for
  every cubic from the head of the list on, then the first chunk; the model puts each
  chunk in front of the chunks written before it. The result is the array and, when
  \<open>r_orig_index\<close> is not null, its contents.
\<close>

definition cubic_list_as_array ::
  "CubicList \<Rightarrow> nat \<Rightarrow> bool \<Rightarrow> error + (double list \<times> nat list option)" where
  "cubic_list_as_array clist index_last use_orig_index =
     (case items clist of
        [] \<Rightarrow> Inl NullPointer
      | first # others \<Rightarrow>
          let dims = list_dims clist;
              array_flat_len = (len clist + 1) * 3 * dims;
              (array_iter, handle_prev) =
                foldl (\<lambda>(array_iter, handle_prev) citer.
                         (take (2 * dims) (drop (2 * dims) (pt_data citer))
                            @ take dims (drop dims handle_prev) @ array_iter,
                          pt_data citer))
                  ([], drop dims (pt_data first)) (items clist);
              (orig_index_value, orig_index_index, r_orig_index) =
                foldl (\<lambda>(orig_index_value, orig_index_index, r_orig_index) citer.
                         (uint_sub orig_index_value (orig_span citer), orig_index_index - 1,
                          r_orig_index[orig_index_index := orig_index_value]))
                  (index_last, len clist, replicate (len clist + 1) 0) (items clist);
              r_orig_index' =
                r_orig_index[orig_index_index := (if index_last \<noteq> 0 then orig_index_value else 0)];
              first_chunk = take (2 * dims) handle_prev;
              array = flip_vn_vnvn first_chunk (drop dims first_chunk) dims @ first_chunk
                        @ array_iter;
              last_chunk = drop (array_flat_len - 3 * dims) array;
              array' = take (array_flat_len - 3 * dims + 2 * dims) array
                         @ flip_vn_vnvn (drop dims last_chunk) last_chunk dims
          in Inr (array', if use_orig_index then Some r_orig_index' else None))"

section \<open>The fit of one run of points\<close>

text \<open>
  The loop of at most \<open>iteration_max\<close> reparameterizations. Its counter is the number of
  iterations that remain; \<open>u\<close> is the parameter vector after the swap of the two buffers.
  The result is the cubic that was accepted, or the index at which to split.
\<close>

datatype fit_outcome = Fitted Cubic | Split nat

fun fit_cubic_iterate ::
  "inline_ops \<Rightarrow> double list \<Rightarrow> nat \<Rightarrow> double list \<Rightarrow> double list \<Rightarrow> double \<Rightarrow> nat
   \<Rightarrow> nat \<Rightarrow> Cubic \<Rightarrow> double list \<Rightarrow> nat \<Rightarrow> fit_outcome" where
  "fit_cubic_iterate ops points_offset points_offset_len tan_l tan_r error_sq dims
     0 cubic u split_index = Split split_index"
| "fit_cubic_iterate ops points_offset points_offset_len tan_l tan_r error_sq dims
     (Suc remaining) cubic u split_index =
     (case cubic_reparameterize cubic points_offset points_offset_len u dims of
        None \<Rightarrow> Split split_index
      | Some u_prime \<Rightarrow>
          let cubic' = cubic_from_points ops points_offset points_offset_len u_prime
                         tan_l tan_r dims;
              (error_sq_max, split_index') =
                cubic_calc_error cubic' points_offset points_offset_len u_prime dims
          in if error_sq_max < error_sq then Fitted cubic'
             else fit_cubic_iterate ops points_offset points_offset_len tan_l tan_r error_sq
                    dims remaining cubic' u_prime split_index')"

text \<open>
  The part of \<^verbatim>\<open>fit_cubic_to_points\<close> for a run that is not of two points, up to the
  comment "Fitting failed".
\<close>

definition fit_cubic_attempt ::
  "inline_ops \<Rightarrow> double list \<Rightarrow> nat \<Rightarrow> double list \<Rightarrow> double list \<Rightarrow> double list \<Rightarrow> double
   \<Rightarrow> nat \<Rightarrow> fit_outcome" where
  "fit_cubic_attempt ops points_offset points_offset_len points_length_cache tan_l tan_r
     error_threshold dims =
     (let iteration_max = 4;
          error_sq = sq error_threshold;
          u = points_calc_coord_length points_offset points_offset_len dims points_length_cache;
          cubic = cubic_from_points ops points_offset points_offset_len u tan_l tan_r dims;
          (error_sq_max, split_index) =
            cubic_calc_error cubic points_offset points_offset_len u dims
      in if error_sq_max < error_sq then Fitted cubic
         else fit_cubic_iterate ops points_offset points_offset_len tan_l tan_r error_sq dims
                iteration_max cubic u split_index)"

text \<open>
  \<^verbatim>\<open>fit_cubic_to_points\<close>. With fewer than two points the source reads
  \<open>points_offset[(points_offset_len - 2) * dims]\<close>, and with a split index of zero
  \<open>points_offset[(split_index - 1) * dims]\<close>: both indices wrap around and the reads leave
  the array.
\<close>

function fit_cubic_to_points ::
  "inline_ops \<Rightarrow> double list \<Rightarrow> nat \<Rightarrow> double list \<Rightarrow> double list \<Rightarrow> double list \<Rightarrow> double
   \<Rightarrow> nat \<Rightarrow> CubicList \<Rightarrow> error + CubicList" where
  "fit_cubic_to_points ops points_offset points_offset_len points_length_cache tan_l tan_r
     error_threshold dims clist =
     (if points_offset_len = 2 then
        (let p0 = copy_vnvn (drop (0 * dims) points_offset) dims;
             p3 = copy_vnvn (drop (1 * dims) points_offset) dims;
             dist = len_vnvn p0 p3 dims / Fin 3;
             p1 = msub_vn_vnvn_fl p0 tan_l dist dims;
             p2 = madd_vn_vnvn_fl p3 tan_r dist dims
         in Inr (cubic_list_prepend clist \<lparr>orig_span = 1, pt_data = p0 @ p1 @ p2 @ p3\<rparr>))
      else if points_offset_len < 2 then Inl OutOfBounds
      else
        (case fit_cubic_attempt ops points_offset points_offset_len points_length_cache
                tan_l tan_r error_threshold dims of
           Fitted cubic \<Rightarrow> Inr (cubic_list_prepend clist cubic)
         | Split split_index \<Rightarrow>
             if split_index = 0 then Inl OutOfBounds
             else
               (let pt_a = drop ((split_index - 1) * dims) points_offset;
                    pt_b = drop ((split_index + 1) * dims) points_offset;
                    pt_a' = (if equals_vnvn ops pt_a pt_b dims then drop dims pt_a else pt_a);
                    tan_center = normalize_vn_vnvn ops pt_a' pt_b dims
                in case fit_cubic_to_points ops points_offset (split_index + 1)
                          points_length_cache tan_l tan_center error_threshold dims clist of
                     Inl e \<Rightarrow> Inl e
                   | Inr clist' \<Rightarrow>
                       fit_cubic_to_points ops (drop (split_index * dims) points_offset)
                         (points_offset_len - split_index)
                         (drop split_index points_length_cache)
                         tan_center tan_r error_threshold dims clist')))"
  by pat_completeness auto

section \<open>The entry points\<close>

text \<open>
  The body of the loop of \<^verbatim>\<open>curve_fit_cubic_to_points_db\<close> for the corner \<open>i\<close>, up to the
  update of the list of cubics. \<open>uninit\<close> is the indeterminate cubic that \<^verbatim>\<open>cubic_alloc\<close>
  returns for an input of one point. The length cache is computed afresh for every run
  (it is reallocated whenever the run is longer than \<open>points_length_cache_len_alloc\<close>,
  which stays zero).
\<close>

definition fit_corner_run ::
  "inline_ops \<Rightarrow> Cubic \<Rightarrow> double list \<Rightarrow> nat \<Rightarrow> nat \<Rightarrow> double \<Rightarrow> nat list \<Rightarrow> nat
   \<Rightarrow> CubicList \<Rightarrow> error + CubicList" where
  "fit_corner_run ops uninit points points_len dims error_threshold corners i clist =
     (let points_offset_len = (uint_sub (corners ! i) (corners ! (i - 1)) + 1) mod 4294967296;
          first_point = corners ! (i - 1)
      in if points_offset_len > 1 then
           (if length points < (first_point + points_offset_len) * dims then Inl OutOfBounds
            else
              let pt_l = drop (first_point * dims) points;
                  pt_r = drop ((first_point + points_offset_len - 1) * dims) points;
                  pt_l_next = drop dims pt_l;
                  pt_r_prev = drop ((first_point + points_offset_len - 2) * dims) points;
                  tan_l = normalize_vn_vnvn ops pt_l pt_l_next dims;
                  tan_r = normalize_vn_vnvn ops pt_r_prev pt_r dims;
                  points_length_cache =
                    points_calc_coord_length_cache pt_l points_offset_len dims
              in fit_cubic_to_points ops pt_l points_offset_len points_length_cache
                   tan_l tan_r error_threshold dims clist)
         else if points_len = 1 then
           (if length points < dims then Inl OutOfBounds
            else Inr (cubic_list_prepend clist
                        (cubic_init uninit points points points points dims)))
         else Inr clist)"

text \<open>
  The loop over \<open>i = 1, ..., corners_len - 1\<close>. Its state is the list of cubics and, when it
  was allocated, the array \<open>corner_index_array\<close> filled so far.
\<close>

fun fit_corner_runs ::
  "inline_ops \<Rightarrow> Cubic \<Rightarrow> double list \<Rightarrow> nat \<Rightarrow> nat \<Rightarrow> double \<Rightarrow> nat list \<Rightarrow> nat list
   \<Rightarrow> CubicList \<times> nat list option \<Rightarrow> error + (CubicList \<times> nat list option)" where
  "fit_corner_runs ops uninit points points_len dims error_threshold corners [] st = Inr st"
| "fit_corner_runs ops uninit points points_len dims error_threshold corners (i # rest)
     (clist, corner_index_array) =
     (case fit_corner_run ops uninit points points_len dims error_threshold corners i clist of
        Inl e \<Rightarrow> Inl e
      | Inr clist' \<Rightarrow>
          fit_corner_runs ops uninit points points_len dims error_threshold corners rest
            (clist', map_option (\<lambda>a. a @ [len clist']) corner_index_array))"

text \<open>
  The outputs of an entry point: the return value and what is stored through the result
  pointers. \<open>corners = None\<close> is the null pointer; \<open>corners_len\<close> is the length of the list.
  The two flags say whether \<open>r_cubic_orig_index\<close> and \<open>r_corner_index_array\<close> are not null.
\<close>

record 'a fit_result =
  result :: int
  r_cubic_array :: "'a list"
  r_cubic_array_len :: nat
  r_cubic_orig_index :: "nat list option"
  r_corner_index_array :: "nat list option"
  r_corner_index_len :: "nat option"

definition curve_fit_cubic_to_points_db ::
  "inline_ops \<Rightarrow> Cubic \<Rightarrow> double list \<Rightarrow> nat \<Rightarrow> nat \<Rightarrow> double \<Rightarrow> nat list option \<Rightarrow> bool \<Rightarrow> bool
   \<Rightarrow> error + double fit_result" where
  "curve_fit_cubic_to_points_db ops uninit points points_len dims error_threshold corners_arg
     want_cubic_orig_index want_corner_index_array =
     (let corners_buf = [0, uint_sub points_len 1];
          corners = (case corners_arg of None \<Rightarrow> corners_buf | Some cs \<Rightarrow> cs);
          corners_len = length corners;
          clist = \<lparr>items = [], len = 0, list_dims = dims\<rparr>
      in if corners_len = 0 then Inl OutOfBounds
         else
           let corner_index_array =
                 (if want_corner_index_array \<and> corners_arg \<noteq> None
                  then Some [corners ! 0] else None)
           in case fit_corner_runs ops uninit points points_len dims error_threshold corners
                     [1..<corners_len] (clist, corner_index_array) of
                Inl e \<Rightarrow> Inl e
              | Inr (clist', corner_index_array') \<Rightarrow>
                  (case cubic_list_as_array clist' (corners ! (corners_len - 1))
                          want_cubic_orig_index of
                     Inl e \<Rightarrow> Inl e
                   | Inr (array, cubic_orig_index) \<Rightarrow>
                       Inr \<lparr>result = 0,
                            r_cubic_array = array,
                            r_cubic_array_len = len clist' + 1,
                            r_cubic_orig_index = cubic_orig_index,
                            r_corner_index_array = corner_index_array',
                            r_corner_index_len = map_option length corner_index_array'\<rparr>))"


text \<open>
  Modelled from the spec: one instance of the four helpers that the specification leaves
  open, used where the model is run on concrete inputs. The tolerance is \<open>10^-9\<close>, a zero
  difference is left as it is when normalised, and \<open>max\<close> is \<open>a < b ? b : a\<close>.
\<close>

definition ref_ops :: inline_ops where
  "ref_ops =
     \<lparr>is_almost_zero = (\<lambda>val. Fin (- (1 / 10 ^ 9)) < val \<and> val < Fin (1 / 10 ^ 9)),
      equals_vnvn =
        (\<lambda>v0 v1 dims.
           list_all (\<lambda>j. Fin (- (1 / 10 ^ 9)) < v0 ! j - v1 ! j \<and> v0 ! j - v1 ! j < Fin (1 / 10 ^ 9))
             [0..<dims]),
      normalize_vn_vnvn =
        (\<lambda>v0 v1 dims.
           let v_out = isub_vnvn v0 v1 dims;
               d = d_sqrt (len_squared_vn v_out dims)
           in if d_ne d (Fin 0) then imul_vn_fl v_out (Fin 1 / d) dims else v_out),
      max_fn = (\<lambda>a b. if a < b then b else a)\<rparr>"

section \<open>Predicates of the statements\<close>


text \<open>
  The corners the entry point accepts: two or more, strictly ascending, each an index of
  a point, with a number of points that fits an \<^verbatim>\<open>unsigned int\<close>.
\<close>

definition corners_ok :: "nat list \<Rightarrow> nat \<Rightarrow> bool" where
  "corners_ok corners points_len =
     (2 \<le> length corners \<and> sorted_wrt (<) corners
      \<and> list_all (\<lambda>c. c < points_len) corners \<and> points_len < 4294967296)"



section \<open>Termination of the recursion\<close>

text \<open>
  The index that \<^verbatim>\<open>cubic_calc_error\<close> returns is zero, its initial value, or an index of
  the loop: it never exceeds \<open>points_offset_len - 2\<close>. The two recursive calls of
  \<^verbatim>\<open>fit_cubic_to_points\<close> are therefore on shorter runs.
\<close>

lemma calc_error_loop_le:
  "\<forall>i\<in>set xs. i \<le> b \<Longrightarrow> k \<le> b \<Longrightarrow>
   snd (foldl (\<lambda>(error_sq_max, error_index) i.
              let pt_real = drop (i * dims) points_offset;
                  pt_eval = cubic_evaluate cubic (u ! i) dims;
                  err_sq = len_squared_vnvn pt_real pt_eval dims
              in if err_sq \<ge> error_sq_max then (err_sq, i) else (error_sq_max, error_index))
       (e, k) xs) \<le> b"
  by (induction xs arbitrary: e k) (auto simp: Let_def)

lemma cubic_calc_error_index_le:
  "snd (cubic_calc_error cubic points_offset points_offset_len u dims) \<le> points_offset_len - 2"
  unfolding cubic_calc_error_def
  by (rule calc_error_loop_le) auto

lemma fit_cubic_iterate_split_le:
  "fit_cubic_iterate ops points_offset points_offset_len tan_l tan_r error_sq dims
     remaining cubic u split_index = Split k \<Longrightarrow> split_index \<le> points_offset_len - 2 \<Longrightarrow>
   k \<le> points_offset_len - 2"
proof (induction remaining arbitrary: cubic u split_index)
  case 0
  then show ?case by simp
next
  case (Suc remaining)
  show ?case
  proof (cases "cubic_reparameterize cubic points_offset points_offset_len u dims")
    case None
    with Suc.prems show ?thesis by simp
  next
    case (Some u_prime)
    define cubic' where
      "cubic' = cubic_from_points ops points_offset points_offset_len u_prime tan_l tan_r dims"
    obtain e s where es:
      "cubic_calc_error cubic' points_offset points_offset_len u_prime dims = (e, s)"
      by (cases "cubic_calc_error cubic' points_offset points_offset_len u_prime dims")
    have "s \<le> points_offset_len - 2"
      using cubic_calc_error_index_le[of cubic' points_offset points_offset_len u_prime dims] es
      by simp
    with Suc.prems(1) Some es Suc.IH[of cubic' u_prime s] show ?thesis
      by (auto simp: Let_def cubic'_def split: if_splits)
  qed
qed

lemma fit_cubic_attempt_split_le:
  "fit_cubic_attempt ops points_offset points_offset_len points_length_cache tan_l tan_r
     error_threshold dims = Split k \<Longrightarrow> k \<le> points_offset_len - 2"
  unfolding fit_cubic_attempt_def Let_def
  using cubic_calc_error_index_le fit_cubic_iterate_split_le
  by (auto split: prod.splits if_splits) (metis snd_conv)

termination fit_cubic_to_points
proof (relation "measure (\<lambda>(ops, points_offset, points_offset_len, rest). points_offset_len)")
  show "wf (measure (\<lambda>(ops, points_offset, points_offset_len, rest). points_offset_len))"
    by simp
next
  fix ops :: inline_ops and points_offset points_length_cache tan_l tan_r tan_center :: "double list"
    and points_offset_len dims split_index :: nat and error_threshold :: double
    and clist :: CubicList
  assume "points_offset_len \<noteq> 2" "\<not> points_offset_len < 2"
    "fit_cubic_attempt ops points_offset points_offset_len points_length_cache tan_l tan_r
       error_threshold dims = Split split_index"
    "split_index \<noteq> 0"
  then show "((ops, points_offset, split_index + 1, points_length_cache, tan_l, tan_center,
               error_threshold, dims, clist),
              (ops, points_offset, points_offset_len, points_length_cache, tan_l, tan_r,
               error_threshold, dims, clist))
            \<in> measure (\<lambda>(ops, points_offset, points_offset_len, rest). points_offset_len)"
    using fit_cubic_attempt_split_le[of ops points_offset points_offset_len
        points_length_cache tan_l tan_r error_threshold dims split_index]
    by simp
next
  fix ops :: inline_ops and points_offset points_length_cache tan_l tan_r tan_center :: "double list"
    and points_offset_len dims split_index :: nat and error_threshold :: double
    and clist clist' :: CubicList
  assume "points_offset_len \<noteq> 2" "\<not> points_offset_len < 2"
    "fit_cubic_attempt ops points_offset points_offset_len points_length_cache tan_l tan_r
       error_threshold dims = Split split_index"
    "split_index \<noteq> 0"
  then show "((ops, drop (split_index * dims) points_offset, points_offset_len - split_index,
               drop split_index points_length_cache, tan_center, tan_r, error_threshold, dims,
               clist'),
              (ops, points_offset, points_offset_len, points_length_cache, tan_l, tan_r,
               error_threshold, dims, clist))
            \<in> measure (\<lambda>(ops, points_offset, points_offset_len, rest). points_offset_len)"
    by simp
qed

declare fit_cubic_to_points.simps [simp del]

section \<open>Evaluation lemmas\<close>

lemma upt_0_1: "[0..<1] = [0]"
  by simp

lemma sub_Fin [simp]: "Fin a - Fin b = Fin (a - b)"
  by (simp add: minus_double_def)

lemma mul_NaN_right [simp]: "x * NaN = NaN" for x :: double
  by (cases x) simp_all

lemma add_NaN_right [simp]: "x + NaN = NaN" for x :: double
  by (cases x) simp_all

lemma sub_NaN_right [simp]: "x - NaN = NaN" for x :: double
  by (simp add: minus_double_def)

lemma sub_NaN_left [simp]: "NaN - x = NaN" for x :: double
  by (simp add: minus_double_def)

lemma div_NaN_right [simp]: "x / NaN = NaN" for x :: double
  by (cases x) simp_all

lemma not_le_NaN [simp]: "\<not> (x \<le> NaN)" for x :: double
  by (cases x) simp_all

lemma not_less_NaN [simp]: "\<not> (x < NaN)" for x :: double
  by (cases x) simp_all

text \<open>The run of two points: the first branch of \<^verbatim>\<open>fit_cubic_to_points\<close>.\<close>

lemma fit_cubic_to_points_two:
  "fit_cubic_to_points ops points_offset 2 points_length_cache tan_l tan_r error_threshold dims clist =
   (let p0 = copy_vnvn points_offset dims;
        p3 = copy_vnvn (drop dims points_offset) dims;
        dist = len_vnvn p0 p3 dims / Fin 3;
        p1 = msub_vn_vnvn_fl p0 tan_l dist dims;
        p2 = madd_vn_vnvn_fl p3 tan_r dist dims
    in Inr (cubic_list_prepend clist \<lparr>orig_span = 1, pt_data = p0 @ p1 @ p2 @ p3\<rparr>))"
  by (subst fit_cubic_to_points.simps) simp

lemma fit_cubic_to_points_len_two:
  "points_offset_len = 2 \<Longrightarrow>
   fit_cubic_to_points ops points_offset points_offset_len points_length_cache tan_l tan_r
     error_threshold dims clist =
   (let p0 = copy_vnvn points_offset dims;
        p3 = copy_vnvn (drop dims points_offset) dims;
        dist = len_vnvn p0 p3 dims / Fin 3;
        p1 = msub_vn_vnvn_fl p0 tan_l dist dims;
        p2 = madd_vn_vnvn_fl p3 tan_r dist dims
    in Inr (cubic_list_prepend clist \<lparr>orig_span = 1, pt_data = p0 @ p1 @ p2 @ p3\<rparr>))"
  using fit_cubic_to_points_two by simp

lemma cubic_list_as_array_Inr:
  "items clist \<noteq> [] \<Longrightarrow>
   \<exists>array. cubic_list_as_array clist index_last use_orig_index = Inr array"
  by (cases "items clist") (simp_all add: cubic_list_as_array_def Let_def split: prod.splits)

text \<open>A run of three coincident points, in one dimension.\<close>

lemma cubic_find_root_NaN: "cubic_find_root cubic p NaN dims = NaN"
  by (simp add: cubic_find_root_def Let_def)

lemma fit_cubic_attempt_coincident:
  "fit_cubic_attempt ops [Fin 0, Fin 0, Fin 0] 3 [Fin 0, Fin 0, Fin 0] tan_l tan_r (Fin 0) 1
   = Split 0"
  by (simp add: fit_cubic_attempt_def points_calc_coord_length_def sq_def
      len_squared_vnvn_def cubic_calc_error_def cubic_evaluate_def
      upt_conv_Cons Let_def eval_nat_numeral cubic_reparameterize_def cubic_find_root_NaN)

lemma fit_cubic_to_points_coincident:
  "fit_cubic_to_points ops [Fin 0, Fin 0, Fin 0] 3 [Fin 0, Fin 0, Fin 0] tan_l tan_r (Fin 0) 1
     clist = Inl OutOfBounds"
  by (subst fit_cubic_to_points.simps)
    (simp add: fit_cubic_attempt_coincident[unfolded One_nat_def])

text \<open>Two corners \<open>{1, 2}\<close> on three points, in one dimension.\<close>

lemma fit_corner_runs_corners_1_2:
  "\<exists>c. fit_corner_runs ops uninit [Fin 0, Fin 1, Fin 2] 3 1 error_threshold [1, 2] [1]
          (\<lparr>items = [], len = 0, list_dims = 1\<rparr>, Some [1])
        = Inr (\<lparr>items = [c], len = 1, list_dims = 1\<rparr>, Some [1, 1])"
  by (simp add: fit_corner_run_def uint_sub_def fit_cubic_to_points_len_two
      cubic_list_prepend_def Let_def)

section \<open>Lemmas on the model\<close>

lemma sqrt_9: "sqrt 9 = 3"
  by (rule real_sqrt_unique) simp_all

lemma len_vnvn_copy:
  "len_vnvn (copy_vnvn v0 dims) (copy_vnvn v1 dims) dims = len_vnvn v0 v1 dims"
proof -
  have "foldl (\<lambda>d j. d + sq (map ((!) v0) [0..<dims] ! j - map ((!) v1) [0..<dims] ! j)) a xs
      = foldl (\<lambda>d j. d + sq (v0 ! j - v1 ! j)) a xs" if "set xs \<subseteq> {..<dims}" for a xs
    using that by (induction xs arbitrary: a) auto
  then show ?thesis
    by (simp add: len_vnvn_def len_squared_vnvn_def copy_vnvn_def lessThan_atLeast0)
qed

lemma not_ge_zero_iff: "(\<not> Fin 0 \<le> a) = (a = NaN \<or> a < Fin 0)"
  by (cases a) auto

lemma cubic_from_points_solve_example: "cubic_from_points_solve ref_ops
       (cubic_from_points_sums [Fin 0, Fin 0, Fin 1, Fin 1, Fin 2, Fin 0] 3
          [Fin 0, Fin (1/2), Fin 1] [Fin (- 1), Fin 0] [Fin 0, Fin (- 1)] 2)
     = (Fin (- (16 / 3)), Fin (- (8 / 3)))"
  by (simp add: cubic_from_points_solve_def cubic_from_points_sums_def ref_ops_def
      cubic_from_points_tmp_def mul_vnvn_fl_def dot_vnvn_def B1_def B2_def B0plusB1_def
      B2plusB3_def upt_conv_Cons Let_def)

lemma roots_None_iff:
  "cubic_reparameterize_roots cubic points_offset u dims xs = None \<longleftrightarrow>
   (\<exists>i\<in>set xs. \<not> isfinite (cubic_find_root cubic (drop (i * dims) points_offset) (u ! i) dims))"
  by (induction xs) (auto simp: Let_def)

lemma roots_Some:
  "cubic_reparameterize_roots cubic points_offset u dims xs = Some r \<Longrightarrow>
   r = map (\<lambda>i. cubic_find_root cubic (drop (i * dims) points_offset) (u ! i) dims) xs"
  by (induction xs arbitrary: r) (auto simp: Let_def split: if_splits)

lemma finite_list_reals: "list_all isfinite xs \<Longrightarrow> \<exists>rs. xs = map Fin rs"
proof (induction xs)
  case Nil
  then show ?case by simp
next
  case (Cons x xs)
  then obtain rs where "xs = map Fin rs" by auto
  moreover from Cons.prems obtain a where "x = Fin a" by (cases x) auto
  ultimately have "x # xs = map Fin (a # rs)" by simp
  then show ?case by (rule exI)
qed

lemma qsort_insert_Fin:
  "qsort_insert compare_double_fn (Fin a) (map Fin rs) = map Fin (insort a rs)"
  by (induction rs) (auto simp: compare_double_fn_def)

lemma qsort_Fin: "qsort (map Fin rs) (length rs) compare_double_fn = map Fin (sort rs)"
proof -
  have "foldr (qsort_insert compare_double_fn) (map Fin rs) [] = map Fin (foldr insort rs [])"
    by (induction rs) (simp_all add: qsort_insert_Fin)
  then show ?thesis
    by (simp add: qsort_def sort_key_def)
qed

lemma sorted_wrt_Fin: "sorted_wrt (\<le>) (map Fin rs) = sorted rs"
  by (induction rs) auto

lemma cubic_reparameterize_example:
  "cubic_reparameterize \<lparr>orig_span = 2, pt_data = [Fin 0, Fin (1/3), Fin (2/3), Fin 1]\<rparr>
            [Fin 0, Fin (1/2), Fin 1] 3 [Fin 0, Fin (1/2), Fin 1] 1
          = Some [Fin 0, Fin (1/2), Fin 1]"
  by (simp add: cubic_reparameterize_def cubic_find_root_def cubic_calc_point_def
      cubic_calc_speed_def cubic_calc_acceleration_def CUBIC_PT_def isub_vnvn_def dot_vnvn_def
      len_squared_vn_def sq_def qsort_def compare_double_fn_def upt_conv_Cons Let_def)








lemma mod_sub_wrap: "b \<le> a \<Longrightarrow> a < N \<Longrightarrow> (a + N - b) mod N = a - b" for a b N :: nat
proof -
  assume h: "b \<le> a" "a < N"
  then have "a + N - b = (a - b) + N" by simp
  then have "(a + N - b) mod N = (a - b) mod N" by simp
  with h show ?thesis by simp
qed

lemma uint_sub_le: "b \<le> a \<Longrightarrow> a < 4294967296 \<Longrightarrow> uint_sub a b = a - b"
  unfolding uint_sub_def by (rule mod_sub_wrap)

lemma uint_len: "b < a \<Longrightarrow> a < n \<Longrightarrow> n < 4294967296 \<Longrightarrow>
   (uint_sub a b + 1) mod 4294967296 = a - b + 1"
proof -
  assume h: "b < a" "a < n" "n < 4294967296"
  then have "uint_sub a b = a - b" by (intro uint_sub_le) simp_all
  moreover have "a - b + 1 < 4294967296" using h by linarith
  ultimately show ?thesis by (simp only: mod_less)
qed













text \<open>The straight line \<open>0, 1, 2\<close> and the two points \<open>0, 3\<close>, in one dimension.\<close>

lemma points_calc_center_weighted_line: "points_calc_center_weighted [Fin 0, Fin 1, Fin 2] 3 1 = [Fin 1]"
  by (simp add: points_calc_center_weighted_def len_vnvn_def len_squared_vnvn_def sq_def
      zero_vn_def miadd_vn_vn_fl_def imul_vn_fl_def d_ne_def d_eq_def upt_conv_Cons Let_def)

lemma cubic_from_points_line:
  "cubic_from_points ref_ops [Fin 0, Fin 1, Fin 2] 3 [Fin 0, Fin (1/2), Fin 1] [Fin (- 1)] [Fin (- 1)] 1
   = \<lparr>orig_span = 2, pt_data = [Fin 0, Fin 0, Fin 2, Fin 2]\<rparr>"
  by (simp add: cubic_from_points_def cubic_from_points_solve_def cubic_from_points_sums_def
      cubic_from_points_alpha_check_def cubic_from_points_handles_def cubic_from_points_clamp_def
      points_calc_center_weighted_line[unfolded One_nat_def]
      ref_ops_def cubic_from_points_tmp_def mul_vnvn_fl_def dot_vnvn_def B1_def B2_def B0plusB1_def
      B2plusB3_def msub_vn_vnvn_fl_def madd_vn_vnvn_fl_def copy_vnvn_def
      len_squared_vnvn_def sq_def upt_conv_Cons Let_def)

lemma fit_cubic_attempt_line:
  "fit_cubic_attempt ref_ops [Fin 0, Fin 1, Fin 2] 3 [Fin 0, Fin 1, Fin 1] [Fin (- 1)] [Fin (- 1)]
     (Fin (1 / 1000)) 1
   = Fitted \<lparr>orig_span = 2, pt_data = [Fin 0, Fin 0, Fin 2, Fin 2]\<rparr>"
  by (simp add: fit_cubic_attempt_def points_calc_coord_length_def cubic_from_points_line[unfolded One_nat_def]
      cubic_calc_error_def cubic_evaluate_def CUBIC_PT_def len_squared_vnvn_def sq_def
      upt_conv_Cons Let_def)

lemma fit_cubic_to_points_line:
  "fit_cubic_to_points ref_ops [Fin 0, Fin 1, Fin 2] 3 [Fin 0, Fin 1, Fin 1] [Fin (- 1)] [Fin (- 1)]
     (Fin (1 / 1000)) 1 clist
   = Inr (cubic_list_prepend clist \<lparr>orig_span = 2, pt_data = [Fin 0, Fin 0, Fin 2, Fin 2]\<rparr>)"
  by (subst fit_cubic_to_points.simps) (simp add: fit_cubic_attempt_line[unfolded One_nat_def])

lemma ref_ops_normalize_step:
  "normalize_vn_vnvn ref_ops (Fin a # xs) (Fin (a + 1) # ys) 1 = [Fin (- 1)]"
  by (simp add: ref_ops_def isub_vnvn_def len_squared_vn_def sq_def imul_vn_fl_def d_ne_def
      d_eq_def Let_def)

lemma fit_corner_run_line:
  "fit_corner_run ref_ops uninit [Fin 0, Fin 1, Fin 2] 3 1 (Fin (1 / 1000)) [0, 2] 1
     \<lparr>items = [], len = 0, list_dims = 1\<rparr>
   = Inr \<lparr>items = [\<lparr>orig_span = 2, pt_data = [Fin 0, Fin 0, Fin 2, Fin 2]\<rparr>], len = 1,
          list_dims = 1\<rparr>"
proof -
  have n: "(uint_sub ([0, 2] ! 1) ([0, 2] ! (1 - 1)) + 1) mod 4294967296 = 3"
    by (simp add: uint_sub_def)
  have t1: "normalize_vn_vnvn ref_ops [Fin 0, Fin 1, Fin 2] [Fin 1, Fin 2] 1 = [Fin (- 1)]"
    using ref_ops_normalize_step[of 0] by simp
  have t2: "normalize_vn_vnvn ref_ops [Fin 1, Fin 2] [Fin 2] 1 = [Fin (- 1)]"
    using ref_ops_normalize_step[of 1] by simp
  have c: "points_calc_coord_length_cache [Fin 0, Fin 1, Fin 2] 3 1 = [Fin 0, Fin 1, Fin 1]"
    by (simp add: points_calc_coord_length_cache_def len_vnvn_def len_squared_vnvn_def sq_def
        upt_conv_Cons)
  show ?thesis
    unfolding fit_corner_run_def n Let_def
    by (simp add: t1[unfolded One_nat_def] t2[unfolded One_nat_def] c[unfolded One_nat_def]
        fit_cubic_to_points_line[unfolded One_nat_def] cubic_list_prepend_def)
qed



text \<open>Squared errors are NaN or not negative; the threshold zero accepts no fit.\<close>

lemma sq_nonneg: "sq x = NaN \<or> Fin 0 \<le> sq x"
  by (cases x) (simp_all add: sq_def)

lemma add_nonneg: "Fin 0 \<le> x \<Longrightarrow> Fin 0 \<le> y \<Longrightarrow> Fin 0 \<le> x + y" for x y :: double
  by (cases x; cases y) simp_all

lemma sum_sq_nonneg:
  "acc = NaN \<or> Fin 0 \<le> acc \<Longrightarrow>
   foldl (\<lambda>d j. d + sq (f j)) acc xs = NaN \<or> Fin 0 \<le> foldl (\<lambda>d j. d + sq (f j)) acc xs"
proof (induction xs arbitrary: acc)
  case Nil
  then show ?case by simp
next
  case (Cons x xs)
  have "acc + sq (f x) = NaN \<or> Fin 0 \<le> acc + sq (f x)"
    using Cons.prems sq_nonneg[of "f x"] by (auto simp: add_nonneg)
  from Cons.IH[OF this] show ?case by simp
qed

lemma len_squared_vnvn_nonneg:
  "len_squared_vnvn v0 v1 dims = NaN \<or> Fin 0 \<le> len_squared_vnvn v0 v1 dims"
  unfolding len_squared_vnvn_def
  by (rule sum_sq_nonneg) simp

lemma le_trans_double: "x \<le> y \<Longrightarrow> y \<le> z \<Longrightarrow> x \<le> z" for x y z :: double
  by (cases x; cases y; cases z) simp_all

lemma not_less_of_ge: "Fin 0 \<le> x \<Longrightarrow> \<not> x < Fin 0"
  by (cases x) simp_all

lemma calc_error_loop_max_nonneg:
  "Fin 0 \<le> e \<Longrightarrow>
   Fin 0 \<le> fst (foldl (\<lambda>(error_sq_max, error_index) i.
              let pt_real = drop (i * dims) points_offset;
                  pt_eval = cubic_evaluate cubic (u ! i) dims;
                  err_sq = len_squared_vnvn pt_real pt_eval dims
              in if err_sq \<ge> error_sq_max then (err_sq, i) else (error_sq_max, error_index))
       (e, k) xs)"
  by (induction xs arbitrary: e k) (auto simp: Let_def intro: le_trans_double)

lemma cubic_calc_error_max_nonneg:
  "Fin 0 \<le> fst (cubic_calc_error cubic points_offset points_offset_len u dims)"
  unfolding cubic_calc_error_def
  by (rule calc_error_loop_max_nonneg) simp

lemma calc_error_loop_ge:
  "\<forall>i\<in>set xs. 1 \<le> i \<Longrightarrow> 1 \<le> k \<Longrightarrow>
   1 \<le> snd (foldl (\<lambda>(error_sq_max, error_index) i.
              let pt_real = drop (i * dims) points_offset;
                  pt_eval = cubic_evaluate cubic (u ! i) dims;
                  err_sq = len_squared_vnvn pt_real pt_eval dims
              in if err_sq \<ge> error_sq_max then (err_sq, i) else (error_sq_max, error_index))
       (e, k) xs)"
  by (induction xs arbitrary: e k) (auto simp: Let_def)

lemma cubic_calc_error_index_ge:
  assumes "3 \<le> points_offset_len"
    and "len_squared_vnvn (drop dims points_offset) (cubic_evaluate cubic (u ! 1) dims) dims \<noteq> NaN"
  shows "1 \<le> snd (cubic_calc_error cubic points_offset points_offset_len u dims)"
proof -
  have upt: "[1..<points_offset_len - 1] = 1 # [Suc 1..<points_offset_len - 1]"
    using assms(1) by (intro upt_conv_Cons) simp
  have ge: "Fin 0 \<le> len_squared_vnvn (drop dims points_offset)
              (cubic_evaluate cubic (u ! 1) dims) dims"
    using assms(2) len_squared_vnvn_nonneg by blast
  show ?thesis
    unfolding cubic_calc_error_def upt
    using ge calc_error_loop_ge[where xs="[Suc 1..<points_offset_len - 1]" and k=1
        and dims=dims and points_offset=points_offset and cubic=cubic and u=u
        and e="len_squared_vnvn (drop dims points_offset) (cubic_evaluate cubic (u ! 1) dims) dims"]
    by (simp add: Let_def)
qed

lemma fit_cubic_iterate_zero:
  "fit_cubic_iterate ops points_offset points_offset_len tan_l tan_r (Fin 0) dims
     remaining cubic u split_index \<noteq> Fitted c"
proof (induction remaining arbitrary: cubic u split_index)
  case 0
  then show ?case by simp
next
  case (Suc remaining)
  show ?case
  proof (cases "cubic_reparameterize cubic points_offset points_offset_len u dims")
    case None
    then show ?thesis by simp
  next
    case (Some u_prime)
    define cubic' where
      "cubic' = cubic_from_points ops points_offset points_offset_len u_prime tan_l tan_r dims"
    obtain e s where es:
      "cubic_calc_error cubic' points_offset points_offset_len u_prime dims = (e, s)"
      by (cases "cubic_calc_error cubic' points_offset points_offset_len u_prime dims")
    have "\<not> e < Fin 0"
      using cubic_calc_error_max_nonneg[of cubic' points_offset points_offset_len u_prime dims]
        es not_less_of_ge by simp
    then show ?thesis
      using Some es Suc.IH[of cubic' u_prime s]
      by (simp add: Let_def cubic'_def[symmetric])
  qed
qed

lemma fit_cubic_attempt_zero:
  "fit_cubic_attempt ops points_offset points_offset_len points_length_cache tan_l tan_r
     (Fin 0) dims \<noteq> Fitted c"
proof -
  define u where
    "u = points_calc_coord_length points_offset points_offset_len dims points_length_cache"
  define cubic where
    "cubic = cubic_from_points ops points_offset points_offset_len u tan_l tan_r dims"
  obtain e s where es: "cubic_calc_error cubic points_offset points_offset_len u dims = (e, s)"
    by (cases "cubic_calc_error cubic points_offset points_offset_len u dims")
  have "\<not> e < Fin 0"
    using cubic_calc_error_max_nonneg[of cubic points_offset points_offset_len u dims]
      es not_less_of_ge by simp
  then show ?thesis
    using es fit_cubic_iterate_zero
    by (simp add: fit_cubic_attempt_def Let_def u_def[symmetric] cubic_def[symmetric] sq_def)
qed

lemma fit_threshold_zero_spans:
  "fit_cubic_to_points ops points_offset points_offset_len points_length_cache tan_l tan_r
     error_threshold dims clist = Inr clist' \<Longrightarrow> error_threshold = Fin 0 \<Longrightarrow>
   \<exists>new. items clist' = new @ items clist \<and> list_all (\<lambda>c. orig_span c = 1) new
         \<and> length new = points_offset_len - 1"
proof (induction ops points_offset points_offset_len points_length_cache tan_l tan_r
    error_threshold dims clist arbitrary: clist' rule: fit_cubic_to_points.induct)
  case (1 ops points_offset points_offset_len points_length_cache tan_l tan_r error_threshold
      dims clist)
  show ?case
  proof (cases "points_offset_len = 2")
    case True
    with "1.prems" show ?thesis
      by (auto simp: fit_cubic_to_points_len_two Let_def cubic_list_prepend_def)
  next
    case n2: False
    show ?thesis
    proof (cases "points_offset_len < 2")
      case True
      with n2 "1.prems" show ?thesis
        by (subst (asm) fit_cubic_to_points.simps) simp
    next
      case ge: False
      show ?thesis
      proof (cases "fit_cubic_attempt ops points_offset points_offset_len points_length_cache
                      tan_l tan_r error_threshold dims")
        case (Fitted cubic)
        with "1.prems"(2) fit_cubic_attempt_zero show ?thesis by blast
      next
        case (Split split_index)
        have le: "split_index \<le> points_offset_len - 2"
          using fit_cubic_attempt_split_le[OF Split] .
        show ?thesis
        proof (cases "split_index = 0")
          case True
          with "1.prems" n2 ge Split show ?thesis
            by (subst (asm) fit_cubic_to_points.simps) simp
        next
          case nz: False
          define pt_a where "pt_a = drop ((split_index - 1) * dims) points_offset"
          define pt_b where "pt_b = drop ((split_index + 1) * dims) points_offset"
          define pt_a' where
            "pt_a' = (if equals_vnvn ops pt_a pt_b dims then drop dims pt_a else pt_a)"
          define tan_center where "tan_center = normalize_vn_vnvn ops pt_a' pt_b dims"
          have unfold:
            "fit_cubic_to_points ops points_offset points_offset_len points_length_cache
               tan_l tan_r error_threshold dims clist =
             (case fit_cubic_to_points ops points_offset (split_index + 1) points_length_cache
                     tan_l tan_center error_threshold dims clist of
                Inl e \<Rightarrow> Inl e
              | Inr mid \<Rightarrow>
                  fit_cubic_to_points ops (drop (split_index * dims) points_offset)
                    (points_offset_len - split_index) (drop split_index points_length_cache)
                    tan_center tan_r error_threshold dims mid)"
            unfolding tan_center_def pt_a'_def pt_a_def pt_b_def
            by (subst fit_cubic_to_points.simps)
              (simp only: n2 ge Split nz Let_def if_False fit_outcome.case)
          from "1.prems"(1) obtain mid where
            left: "fit_cubic_to_points ops points_offset (split_index + 1) points_length_cache
                     tan_l tan_center error_threshold dims clist = Inr mid"
            and right: "fit_cubic_to_points ops (drop (split_index * dims) points_offset)
                     (points_offset_len - split_index) (drop split_index points_length_cache)
                     tan_center tan_r error_threshold dims mid = Inr clist'"
            unfolding unfold by (auto split: sum.splits)
          obtain new1 where L: "items mid = new1 @ items clist"
            "list_all (\<lambda>c. orig_span c = 1) new1" "length new1 = split_index + 1 - 1"
            using "1.IH"(1)[OF n2 ge Split nz pt_a_def pt_b_def pt_a'_def tan_center_def left
                "1.prems"(2)] by blast
          obtain new2 where R: "items clist' = new2 @ items mid"
            "list_all (\<lambda>c. orig_span c = 1) new2"
            "length new2 = points_offset_len - split_index - 1"
            using "1.IH"(2)[OF n2 ge Split nz pt_a_def pt_b_def pt_a'_def tan_center_def left
                right "1.prems"(2)] by blast
          have "items clist' = (new2 @ new1) @ items clist"
            "list_all (\<lambda>c. orig_span c = 1) (new2 @ new1)"
            "length (new2 @ new1) = points_offset_len - 1"
            using L R le ge nz by auto
          then show ?thesis by blast
        qed
      qed
    qed
  qed
qed









text \<open>
  The recursion prepends one cubic or more, and at most one for every interval of the run;
  the knot count of the double entry point is therefore at most the number of points.
\<close>

lemma fit_cubic_to_points_len:
  "fit_cubic_to_points ops points_offset points_offset_len points_length_cache tan_l tan_r
     error_threshold dims clist = Inr clist' \<Longrightarrow>
   len clist < len clist' \<and> len clist' \<le> len clist + (points_offset_len - 1)"
proof (induction ops points_offset points_offset_len points_length_cache tan_l tan_r
    error_threshold dims clist arbitrary: clist' rule: fit_cubic_to_points.induct)
  case (1 ops points_offset points_offset_len points_length_cache tan_l tan_r error_threshold
      dims clist)
  show ?case
  proof (cases "points_offset_len = 2")
    case True
    with "1.prems" show ?thesis
      by (auto simp: fit_cubic_to_points_len_two Let_def cubic_list_prepend_def)
  next
    case n2: False
    show ?thesis
    proof (cases "points_offset_len < 2")
      case True
      with n2 "1.prems" show ?thesis
        by (subst (asm) fit_cubic_to_points.simps) simp
    next
      case ge: False
      show ?thesis
      proof (cases "fit_cubic_attempt ops points_offset points_offset_len points_length_cache
                      tan_l tan_r error_threshold dims")
        case (Fitted cubic)
        from "1.prems" n2 ge Fitted have "clist' = cubic_list_prepend clist cubic"
          by (subst (asm) fit_cubic_to_points.simps) simp
        with ge show ?thesis
          by (auto simp: cubic_list_prepend_def)
      next
        case (Split split_index)
        have le: "split_index \<le> points_offset_len - 2"
          using fit_cubic_attempt_split_le[OF Split] .
        show ?thesis
        proof (cases "split_index = 0")
          case True
          with "1.prems" n2 ge Split show ?thesis
            by (subst (asm) fit_cubic_to_points.simps) simp
        next
          case nz: False
          define pt_a where "pt_a = drop ((split_index - 1) * dims) points_offset"
          define pt_b where "pt_b = drop ((split_index + 1) * dims) points_offset"
          define pt_a' where
            "pt_a' = (if equals_vnvn ops pt_a pt_b dims then drop dims pt_a else pt_a)"
          define tan_center where "tan_center = normalize_vn_vnvn ops pt_a' pt_b dims"
          have unfold:
            "fit_cubic_to_points ops points_offset points_offset_len points_length_cache
               tan_l tan_r error_threshold dims clist =
             (case fit_cubic_to_points ops points_offset (split_index + 1) points_length_cache
                     tan_l tan_center error_threshold dims clist of
                Inl e \<Rightarrow> Inl e
              | Inr mid \<Rightarrow>
                  fit_cubic_to_points ops (drop (split_index * dims) points_offset)
                    (points_offset_len - split_index) (drop split_index points_length_cache)
                    tan_center tan_r error_threshold dims mid)"
            unfolding tan_center_def pt_a'_def pt_a_def pt_b_def
            by (subst fit_cubic_to_points.simps)
              (simp only: n2 ge Split nz Let_def if_False fit_outcome.case)
          from "1.prems" obtain mid where
            left: "fit_cubic_to_points ops points_offset (split_index + 1) points_length_cache
                     tan_l tan_center error_threshold dims clist = Inr mid"
            and right: "fit_cubic_to_points ops (drop (split_index * dims) points_offset)
                     (points_offset_len - split_index) (drop split_index points_length_cache)
                     tan_center tan_r error_threshold dims mid = Inr clist'"
            unfolding unfold by (auto split: sum.splits)
          have L: "len clist < len mid \<and> len mid \<le> len clist + (split_index + 1 - 1)"
            using "1.IH"(1)[OF n2 ge Split nz pt_a_def pt_b_def pt_a'_def tan_center_def left] .
          have R: "len mid < len clist'
                   \<and> len clist' \<le> len mid + (points_offset_len - split_index - 1)"
            using "1.IH"(2)[OF n2 ge Split nz pt_a_def pt_b_def pt_a'_def tan_center_def left right] .
          from L R le ge nz show ?thesis by auto
        qed
      qed
    qed
  qed
qed

lemma fit_corner_run_len:
  assumes "corners ! (i - 1) < corners ! i" "corners ! i < points_len"
    "points_len < 4294967296"
    "fit_corner_run ops uninit points points_len dims error_threshold corners i clist = Inr mid"
  shows "len mid \<le> len clist + (corners ! i - corners ! (i - 1))"
proof -
  have n: "(uint_sub (corners ! i) (corners ! (i - 1)) + 1) mod 4294967296
             = corners ! i - corners ! (i - 1) + 1"
    using assms(1-3) by (rule uint_len)
  from assms(4) have "fit_cubic_to_points ops (drop (corners ! (i - 1) * dims) points)
      (corners ! i - corners ! (i - 1) + 1)
      (points_calc_coord_length_cache (drop (corners ! (i - 1) * dims) points)
         (corners ! i - corners ! (i - 1) + 1) dims)
      (normalize_vn_vnvn ops (drop (corners ! (i - 1) * dims) points)
         (drop dims (drop (corners ! (i - 1) * dims) points)) dims)
      (normalize_vn_vnvn ops
         (drop ((corners ! (i - 1) + (corners ! i - corners ! (i - 1) + 1) - 2) * dims) points)
         (drop ((corners ! (i - 1) + (corners ! i - corners ! (i - 1) + 1) - 1) * dims) points)
         dims)
      error_threshold dims clist = Inr mid"
    using assms(1) unfolding fit_corner_run_def n Let_def
    by (simp split: if_splits)
  from fit_cubic_to_points_len[OF this] show ?thesis by simp
qed

lemma fit_corner_runs_len:
  assumes "corners_ok corners points_len"
  shows "1 \<le> k \<Longrightarrow> k \<le> m \<Longrightarrow> m \<le> length corners \<Longrightarrow>
    fit_corner_runs ops uninit points points_len dims error_threshold corners [k..<m]
      (clist, cia) = Inr (clist', cia') \<Longrightarrow>
    len clist' \<le> len clist + (corners ! (m - 1) - corners ! (k - 1))"
proof (induction "m - k" arbitrary: k clist cia)
  case 0
  then show ?case by simp
next
  case (Suc d)
  then have km: "k < m" by simp
  then have upt: "[k..<m] = k # [Suc k..<m]" by (simp add: upt_conv_Cons)
  have srt: "sorted_wrt (<) corners" and bnd: "\<forall>c\<in>set corners. c < points_len"
    and pl: "points_len < 4294967296"
    using assms by (simp_all add: corners_ok_def list_all_iff)
  have lt: "corners ! (k - 1) < corners ! k"
    using srt Suc.prems km by (simp add: sorted_wrt_nth_less)
  have kb: "corners ! k < points_len"
    using bnd Suc.prems km by simp
  from Suc.prems(4) obtain mid where
    step: "fit_corner_run ops uninit points points_len dims error_threshold corners k clist
             = Inr mid"
    and rest: "fit_corner_runs ops uninit points points_len dims error_threshold corners
         [Suc k..<m] (mid, map_option (\<lambda>a. a @ [len mid]) cia) = Inr (clist', cia')"
    unfolding upt by (auto split: sum.splits)
  have s1: "len mid \<le> len clist + (corners ! k - corners ! (k - 1))"
    using fit_corner_run_len[OF lt kb pl step] .
  have mono: "corners ! k \<le> corners ! (m - 1)"
  proof (cases "k = m - 1")
    case True
    then show ?thesis by simp
  next
    case False
    then have "corners ! k < corners ! (m - 1)"
      using srt Suc.prems km by (simp add: sorted_wrt_nth_less)
    then show ?thesis by simp
  qed
  have "len clist' \<le> len mid + (corners ! (m - 1) - corners ! (Suc k - 1))"
    using Suc.hyps(1)[of "Suc k" mid] Suc.hyps(2) Suc.prems km rest by simp
  with s1 lt mono show ?case by simp
qed

lemma db_knots_le:
  assumes "corners_ok (case corners_arg of None \<Rightarrow> [0, uint_sub points_len 1] | Some cs \<Rightarrow> cs)
             points_len"
    and "curve_fit_cubic_to_points_db ops uninit points points_len dims error_threshold
             corners_arg want_cubic_orig_index want_corner_index_array = Inr r"
  shows "r_cubic_array_len r \<le> points_len"
proof -
  define corners where
    "corners = (case corners_arg of None \<Rightarrow> [0, uint_sub points_len 1] | Some cs \<Rightarrow> cs)"
  define cia where "cia = (if want_corner_index_array \<and> corners_arg \<noteq> None
                  then Some [corners ! 0] else None)"
  have ok: "corners_ok corners points_len" using assms(1) by (simp add: corners_def)
  from assms(2) obtain clist cia' where
    runs: "fit_corner_runs ops uninit points points_len dims error_threshold corners
             [1..<length corners] (\<lparr>items = [], len = 0, list_dims = dims\<rparr>, cia)
           = Inr (clist, cia')"
    and r: "r_cubic_array_len r = len clist + 1"
    unfolding curve_fit_cubic_to_points_db_def Let_def corners_def[symmetric] cia_def[symmetric]
    by (auto split: if_splits sum.splits prod.splits)
  have two: "2 \<le> length corners" using ok by (simp add: corners_ok_def)
  then have l2: "1 \<le> length corners" "length corners - 1 < length corners"
    by linarith+
  from fit_corner_runs_len[OF ok _ l2(1) _ runs]
  have "len clist \<le> corners ! (length corners - 1) - corners ! 0" by simp
  moreover have "corners ! (length corners - 1) < points_len"
    using ok l2(2) by (simp add: corners_ok_def list_all_length)
  ultimately show ?thesis using r by simp
qed


text \<open>
  The input of one point: whatever the span of the allocated cubic is, the guard of
  \<^verbatim>\<open>cubic_list_as_array\<close> stores \<open>0\<close> as the first original index.
\<close>

lemma single_point_orig_index:
  "\<exists>r. curve_fit_cubic_to_points_db ops uninit [x] 1 1 error_threshold None True
          want_corner_index_array = Inr r
       \<and> r_cubic_array_len r = 2 \<and> r_cubic_orig_index r = Some [0, 0]"
proof -
  have u: "uint_sub 1 1 = 0" by (simp add: uint_sub_def)
  have n: "(uint_sub ([0, 0] ! 1) ([0, 0] ! (1 - 1)) + 1) mod 4294967296 = 1"
    by (simp add: uint_sub_def)
  have run: "fit_corner_run ops uninit [x] 1 1 error_threshold [0, 0] 1
       \<lparr>items = [], len = 0, list_dims = 1\<rparr>
     = Inr \<lparr>items = [uninit\<lparr>pt_data := [x, x, x, x]\<rparr>], len = 1, list_dims = 1\<rparr>"
    unfolding fit_corner_run_def n Let_def
    by (simp add: cubic_list_prepend_def cubic_init_def copy_vnvn_def)
  have arr: "\<exists>array. cubic_list_as_array
       \<lparr>items = [uninit\<lparr>pt_data := [x, x, x, x]\<rparr>], len = 1, list_dims = 1\<rparr> 0 True
     = Inr (array, Some [0, 0])"
    by (simp add: cubic_list_as_array_def Let_def)
  then obtain array where arr': "cubic_list_as_array
       \<lparr>items = [uninit\<lparr>pt_data := [x, x, x, x]\<rparr>], len = 1, list_dims = 1\<rparr> 0 True
     = Inr (array, Some [0, 0])" by blast
  show ?thesis
    unfolding curve_fit_cubic_to_points_db_def
    by (simp add: Let_def u[unfolded One_nat_def] run[unfolded One_nat_def]
        arr'[unfolded One_nat_def])
qed























section \<open>The velocity evaluator\<close>

text \<open>
  C1. The claim: for every cubic and every \<open>t\<close> the velocity evaluator returns
  \<open>3 * (s^2 * (P1 - P0) + 2 * s * t * (P2 - P1) + t^2 * (P3 - P2))\<close> in every coordinate.
  The middle term of \<^verbatim>\<open>cubic_calc_speed\<close> subtracts \<open>P0\<close> where the derivative of the
  curve that \<^verbatim>\<open>cubic_calc_point\<close> evaluates has \<open>P1\<close>. At the one-dimensional cubic
  \<open>(0, 1, 1, 1)\<close> and \<open>t = 1/2\<close> the function returns \<open>9/4\<close>; the derivative is \<open>3/4\<close>.
\<close>

theorem cubic_calc_speed_not_derivative:
  "(let P0 = Fin 0; P1 = Fin 1; P2 = Fin 1; P3 = Fin 1; t = Fin (1/2); s = Fin 1 - t
    in cubic_calc_speed \<lparr>orig_span = 1, pt_data = [P0, P1, P2, P3]\<rparr> t 1 = [Fin (9/4)]
       \<and> Fin 3 * (s * s * (P1 - P0) + Fin 2 * s * t * (P2 - P1) + t * t * (P3 - P2)) = Fin (3/4))"
  by (simp add: cubic_calc_speed_def CUBIC_PT_def)

section \<open>The residual of the least-squares solver\<close>

text \<open>
  C2. The claim: the residual accumulated into \<open>X\<close> is
  \<open>P_i - P0 * (B0+B1)(u_i) - P3 * (B2+B3)(u_i)\<close>, and the bracketing of the source,
  \<open>(P_i - P0 * (B0+B1)(u_i)) + P3 * (B2+B3)(u_i)\<close>, computes the same vector. The source
  adds the last term, so the two differ by \<open>2 * P3 * (B2+B3)(u_i)\<close>. On the straight line
  \<open>0, 1/2, 1\<close> with \<open>u = 1/2\<close> the residual of the middle point is \<open>0\<close>; the loop of
  \<^verbatim>\<open>cubic_from_points\<close> computes \<open>1\<close>.
\<close>

theorem cubic_from_points_tmp_sign:
  "(let pt = [Fin (1/2)]; p0 = [Fin 0]; p3 = [Fin 1]; u = Fin (1/2)
    in cubic_from_points_tmp pt p0 p3 (B0plusB1 u) (B2plusB3 u) 1 = [Fin 1]
       \<and> pt ! 0 - p0 ! 0 * B0plusB1 u - p3 ! 0 * B2plusB3 u = Fin 0)"
  by (simp add: cubic_from_points_tmp_def B0plusB1_def B2plusB3_def)

section \<open>The corner index array\<close>

text \<open>
  C3. The claim: when the caller supplies corners and asks for the corner index array,
  entry \<open>j\<close> is the number of segments fitted before corner \<open>j\<close>, so entry \<open>0\<close> is \<open>0\<close>. The
  source stores \<open>corners[0]\<close>, an index into the points, as entry \<open>0\<close>, and the length of
  the list of cubics as every later entry. With the corners \<open>{1, 2}\<close> on three points the
  fit has one segment (two knots) and the array is \<open>{1, 1}\<close>, not \<open>{0, 1}\<close>.
\<close>

theorem corner_index_array_first_entry:
  "\<exists>r. curve_fit_cubic_to_points_db ops uninit [Fin 0, Fin 1, Fin 2] 3 1 error_threshold
          (Some [1, 2]) want_cubic_orig_index True = Inr r
       \<and> r_cubic_array_len r = 2 \<and> r_corner_index_array r = Some [1, 1]"
proof -
  obtain c where runs:
    "fit_corner_runs ops uninit [Fin 0, Fin 1, Fin 2] 3 1 error_threshold [1, 2] [1]
       (\<lparr>items = [], len = 0, list_dims = 1\<rparr>, Some [1])
     = Inr (\<lparr>items = [c], len = 1, list_dims = 1\<rparr>, Some [1, 1])"
    using fit_corner_runs_corners_1_2 by blast
  obtain array where arr:
    "cubic_list_as_array \<lparr>items = [c], len = 1, list_dims = 1\<rparr> 2 want_cubic_orig_index
     = Inr array"
    using cubic_list_as_array_Inr[of "\<lparr>items = [c], len = 1, list_dims = 1\<rparr>" 2
        want_cubic_orig_index]
    by auto
  show ?thesis
    unfolding curve_fit_cubic_to_points_db_def
    by (cases array)
      (simp add: runs[unfolded One_nat_def] arr[unfolded One_nat_def] Let_def
        del: fit_corner_runs.simps)
qed

section \<open>The index of the worst error\<close>

text \<open>
  C4. The claim: for a run of three points or more the index that the error evaluator
  returns is interior, \<open>1 \<le> split_index \<le> n - 2\<close>, for every cubic and every parameter
  vector. The upper bound holds (\<open>cubic_calc_error_index_le\<close>), and so does the lower bound
  when the squared error of the first interior point is not NaN
  (\<open>cubic_calc_error_index_ge\<close>). The lower bound fails when every squared error is NaN:
  \<^verbatim>\<open>err_sq >= error_sq_max\<close> is then false in every iteration and the index keeps its
  initial value zero. The chord-length parameterization of three coincident points is
  such a parameter vector, whatever the cubic is.
\<close>

theorem cubic_calc_error_index_zero:
  "(let points = [Fin 0, Fin 0, Fin 0];
        u = points_calc_coord_length points 3 1 (points_calc_coord_length_cache points 3 1)
    in u = [NaN, NaN, NaN] \<and> cubic_calc_error cubic points 3 u 1 = (Fin 0, 0))"
  by (simp add: points_calc_coord_length_def points_calc_coord_length_cache_def
      len_vnvn_def len_squared_vnvn_def sq_def cubic_calc_error_def cubic_evaluate_def
      upt_conv_Cons Let_def)

section \<open>The error threshold zero\<close>

text \<open>
  C9. The claim: with the error threshold zero no fit of three points or more is
  accepted, the recursion splits every run down to runs of two points, and every segment
  has \<open>orig_span = 1\<close>. No fit is accepted (\<open>fit_cubic_attempt_zero\<close>), and where the
  recursion returns, it has prepended \<open>n - 1\<close> cubics of span \<open>1\<close>
  (\<open>fit_threshold_zero_spans\<close>). It does not always return: for three coincident points the
  index to split at is zero (C4), and the source reads
  \<open>points_offset[(split_index - 1) * dims]\<close>, outside the array, instead of reaching runs of
  two points.
\<close>

theorem fit_threshold_zero_coincident:
  "curve_fit_cubic_to_points_db ops uninit [Fin 0, Fin 0, Fin 0] 3 1 (Fin 0) None
     want_cubic_orig_index want_corner_index_array = Inl OutOfBounds"
  by (simp add: curve_fit_cubic_to_points_db_def fit_corner_run_def uint_sub_def upt_conv_Cons
      fit_cubic_to_points_coincident[unfolded One_nat_def]
      points_calc_coord_length_cache_def len_vnvn_def len_squared_vnvn_def sq_def Let_def)

section \<open>Reparameterization\<close>

text \<open>
  C5. \<^verbatim>\<open>cubic_reparameterize\<close> returns invalid exactly when one of the Newton-updated
  parameters is not finite, or the sorted parameters start below \<open>0\<close> or end above \<open>1\<close>.
  When it returns valid, the buffer holds as many parameters as there are points, sorted
  in non-decreasing order, each in \<open>[0, 1]\<close>. When it returns invalid, the loop of the
  caller ends with the split index found for the parameters it had.
\<close>

theorem cubic_reparameterize_valid:
  assumes "0 < points_offset_len"
  shows "(cubic_reparameterize cubic points_offset points_offset_len u dims = None \<longleftrightarrow>
            (\<exists>i<points_offset_len.
                \<not> isfinite (cubic_find_root cubic (drop (i * dims) points_offset) (u ! i) dims))
            \<or> (let u' = qsort (map (\<lambda>i. cubic_find_root cubic (drop (i * dims) points_offset)
                                         (u ! i) dims) [0..<points_offset_len])
                           points_offset_len compare_double_fn
               in u' ! 0 < Fin 0 \<or> u' ! (points_offset_len - 1) > Fin 1))
      \<and> (\<forall>r_u_prime.
            cubic_reparameterize cubic points_offset points_offset_len u dims = Some r_u_prime \<longrightarrow>
              length r_u_prime = points_offset_len
              \<and> sorted_wrt (\<le>) r_u_prime
              \<and> (\<forall>x\<in>set r_u_prime. Fin 0 \<le> x \<and> x \<le> Fin 1))
      \<and> (cubic_reparameterize cubic points_offset points_offset_len u dims = None \<longrightarrow>
            fit_cubic_iterate ops points_offset points_offset_len tan_l tan_r error_sq dims
              (Suc remaining) cubic u split_index = Split split_index)"
proof -
  let ?n = points_offset_len
  let ?root = "\<lambda>i. cubic_find_root cubic (drop (i * dims) points_offset) (u ! i) dims"
  let ?roots = "cubic_reparameterize_roots cubic points_offset u dims [0..<?n]"
  have A: "(cubic_reparameterize cubic points_offset ?n u dims = None) =
           ((\<exists>i<?n. \<not> isfinite (?root i)) \<or>
            (let u' = qsort (map ?root [0..<?n]) ?n compare_double_fn
             in u' ! 0 < Fin 0 \<or> u' ! (?n - 1) > Fin 1))"
  proof (cases ?roots)
    case None
    then show ?thesis
      using roots_None_iff[of cubic points_offset u dims "[0..<?n]"]
      by (auto simp: cubic_reparameterize_def)
  next
    case (Some r)
    then have r: "r = map ?root [0..<?n]" by (rule roots_Some)
    have "\<not> (\<exists>i<?n. \<not> isfinite (?root i))"
      using Some roots_None_iff[of cubic points_offset u dims "[0..<?n]"] by auto
    then show ?thesis
      using Some r by (auto simp: cubic_reparameterize_def Let_def)
  qed
  have B: "length r_u_prime = ?n \<and> sorted_wrt (\<le>) r_u_prime
           \<and> (\<forall>x\<in>set r_u_prime. Fin 0 \<le> x \<and> x \<le> Fin 1)"
    if S: "cubic_reparameterize cubic points_offset ?n u dims = Some r_u_prime" for r_u_prime
  proof -
    from S obtain r where rs: "?roots = Some r"
      by (auto simp: cubic_reparameterize_def split: option.splits)
    then have r: "r = map ?root [0..<?n]" by (rule roots_Some)
    have "list_all isfinite r"
      using rs roots_None_iff[of cubic points_offset u dims "[0..<?n]"] r
      by (auto simp: list_all_iff)
    then obtain rs' where rs': "r = map Fin rs'"
      using finite_list_reals by blast
    have len: "length rs' = ?n" using r rs' by (metis length_map length_upt minus_nat.diff_0)
    define s where "s = sort rs'"
    have q: "qsort r ?n compare_double_fn = map Fin s"
      using qsort_Fin[of rs'] len rs' by (simp add: s_def)
    from S rs q have res: "r_u_prime = map Fin s"
      and bounds: "\<not> (map Fin s ! 0 < Fin 0)" "\<not> (map Fin s ! (?n - 1) > Fin 1)"
      by (auto simp: cubic_reparameterize_def Let_def split: if_splits)
    have ls: "length s = ?n" "sorted s" by (simp_all add: s_def len)
    from bounds ls assms have lo: "0 \<le> s ! 0" and hi: "s ! (?n - 1) \<le> 1"
      by simp_all
    have "0 \<le> x \<and> x \<le> 1" if "x \<in> set s" for x
    proof -
      from that obtain i where i: "i < ?n" "x = s ! i"
        using ls(1) by (metis in_set_conv_nth)
      have "s ! 0 \<le> s ! i" using ls i by (simp add: sorted_nth_mono)
      moreover have "s ! i \<le> s ! (?n - 1)" using ls i by (simp add: sorted_nth_mono)
      ultimately show ?thesis using lo hi i by simp
    qed
    then show ?thesis
      using res ls by (auto simp: sorted_wrt_Fin)
  qed
  have C: "cubic_reparameterize cubic points_offset ?n u dims = None \<longrightarrow>
            fit_cubic_iterate ops points_offset ?n tan_l tan_r error_sq dims
              (Suc remaining) cubic u split_index = Split split_index"
    by simp
  from A B C show ?thesis by blast
qed


theorem cubic_reparameterize_valid_witness:
  "(0::nat) < 3
   \<and> cubic_reparameterize \<lparr>orig_span = 2, pt_data = [Fin 0, Fin (1/3), Fin (2/3), Fin 1]\<rparr>
        [Fin 0, Fin (1/2), Fin 1] 3 [Fin 0, Fin (1/2), Fin 1] 1
      = Some [Fin 0, Fin (1/2), Fin 1]
   \<and> sorted_wrt (\<le>) [Fin 0, Fin (1/2), Fin 1]
   \<and> list_all (\<lambda>x. Fin 0 \<le> x \<and> x \<le> Fin 1) [Fin 0, Fin (1/2), Fin 1]"
  using cubic_reparameterize_valid[of 3
      "\<lparr>orig_span = 2, pt_data = [Fin 0, Fin (1/3), Fin (2/3), Fin 1]\<rparr>"
      "[Fin 0, Fin (1/2), Fin 1]" "[Fin 0, Fin (1/2), Fin 1]" 1 ref_ops "[Fin (- 1)]" "[Fin (- 1)]"
      "Fin 0" 3 0]
  by (simp add: cubic_reparameterize_example[unfolded One_nat_def])


section \<open>The fallback of the least-squares solver\<close>

text \<open>
  C7. Whenever one of the two solutions of Cramer's rule is NaN or negative, both are
  replaced by a third of the distance of the end points, and \<^verbatim>\<open>cubic_from_points\<close> computes
  its handles (before clamping) from that value.
\<close>

theorem cubic_from_points_alpha_fallback:
  assumes "cubic_from_points_solve ops
             (cubic_from_points_sums points_offset points_offset_len u_prime tan_l tan_r dims)
           = (alpha_l, alpha_r)"
    and "alpha_l = NaN \<or> alpha_l < Fin 0 \<or> alpha_r = NaN \<or> alpha_r < Fin 0"
  shows "(let p0 = points_offset;
              p3 = drop ((points_offset_len - 1) * dims) points_offset;
              alpha = len_vnvn p0 p3 dims / Fin 3
          in cubic_from_points_alpha_check p0 p3 dims (alpha_l, alpha_r) = (alpha, alpha)
             \<and> cubic_from_points ops points_offset points_offset_len u_prime tan_l tan_r dims =
                 (case cubic_from_points_clamp ops points_offset points_offset_len tan_l tan_r
                         dims (msub_vn_vnvn_fl p0 tan_l alpha dims,
                               madd_vn_vnvn_fl p3 tan_r alpha dims) of
                    (p1, p2) \<Rightarrow>
                      \<lparr>orig_span = points_offset_len - 1,
                       pt_data = copy_vnvn p0 dims @ p1 @ p2 @ copy_vnvn p3 dims\<rparr>))"
proof -
  have "\<not> Fin 0 \<le> alpha_l \<or> \<not> Fin 0 \<le> alpha_r"
    using assms(2) by (auto simp: not_ge_zero_iff)
  then have chk: "cubic_from_points_alpha_check p0 p3 dims (alpha_l, alpha_r)
      = (len_vnvn p0 p3 dims / Fin 3, len_vnvn p0 p3 dims / Fin 3)" for p0 p3
    by (simp add: cubic_from_points_alpha_check_def)
  show ?thesis
    by (simp add: Let_def chk cubic_from_points_def assms(1) cubic_from_points_handles_def)
qed

theorem cubic_from_points_alpha_fallback_witness:
  "cubic_from_points_solve ref_ops
       (cubic_from_points_sums [Fin 0, Fin 0, Fin 1, Fin 1, Fin 2, Fin 0] 3
          [Fin 0, Fin (1/2), Fin 1] [Fin (- 1), Fin 0] [Fin 0, Fin (- 1)] 2)
     = (Fin (- (16 / 3)), Fin (- (8 / 3)))
   \<and> Fin (- (16 / 3)) < Fin 0
   \<and> cubic_from_points_alpha_check [Fin 0, Fin 0, Fin 1, Fin 1, Fin 2, Fin 0] [Fin 2, Fin 0] 2
        (Fin (- (16 / 3)), Fin (- (8 / 3))) = (Fin (2 / 3), Fin (2 / 3))"
  using cubic_from_points_alpha_fallback[OF cubic_from_points_solve_example, simplified]
  by (simp add: cubic_from_points_solve_example Let_def len_vnvn_def len_squared_vnvn_def sq_def upt_conv_Cons)


section \<open>The run of two points\<close>

text \<open>
  C8. For a run of two points \<^verbatim>\<open>fit_cubic_to_points\<close> prepends exactly one cubic, whatever
  the length cache and the threshold are: its span is \<open>1\<close>, its end points are the two
  points, and its handles are \<open>P0 - tan_l * alpha\<close> and \<open>P3 + tan_r * alpha\<close> with
  \<open>alpha = |P3 - P0| / 3\<close>.
\<close>

theorem fit_cubic_to_points_two_points:
  "\<exists>cubic. fit_cubic_to_points ops points_offset 2 points_length_cache tan_l tan_r
              error_threshold dims clist
            = Inr (clist\<lparr>items := cubic # items clist, len := len clist + 1\<rparr>)
     \<and> orig_span cubic = 1
     \<and> length (pt_data cubic) = 4 * dims
     \<and> (\<forall>j<dims.
           let p0 = points_offset; p3 = drop dims points_offset;
               alpha = len_vnvn p0 p3 dims / Fin 3
           in CUBIC_PT cubic 0 dims ! j = p0 ! j
              \<and> CUBIC_PT cubic 3 dims ! j = p3 ! j
              \<and> CUBIC_PT cubic 1 dims ! j = p0 ! j - tan_l ! j * alpha
              \<and> CUBIC_PT cubic 2 dims ! j = p3 ! j + tan_r ! j * alpha)"
proof -
  define p0 where "p0 = copy_vnvn points_offset dims"
  define p3 where "p3 = copy_vnvn (drop dims points_offset) dims"
  define dist where "dist = len_vnvn p0 p3 dims / Fin 3"
  define p1 where "p1 = msub_vn_vnvn_fl p0 tan_l dist dims"
  define p2 where "p2 = madd_vn_vnvn_fl p3 tan_r dist dims"
  define cubic where "cubic = \<lparr>orig_span = 1, pt_data = p0 @ p1 @ p2 @ p3\<rparr>"
  have len: "length p0 = dims" "length p1 = dims" "length p2 = dims" "length p3 = dims"
    by (simp_all add: p0_def p1_def p2_def p3_def copy_vnvn_def msub_vn_vnvn_fl_def
        madd_vn_vnvn_fl_def)
  have dist: "dist = len_vnvn points_offset (drop dims points_offset) dims / Fin 3"
    by (simp add: dist_def p0_def p3_def len_vnvn_copy)
  have fit: "fit_cubic_to_points ops points_offset 2 points_length_cache tan_l tan_r
              error_threshold dims clist
            = Inr (clist\<lparr>items := cubic # items clist, len := len clist + 1\<rparr>)"
    by (simp add: fit_cubic_to_points_two cubic_list_prepend_def Let_def cubic_def p0_def
        p1_def p2_def p3_def dist_def)
  have pts: "CUBIC_PT cubic 0 dims ! j = p0 ! j" "CUBIC_PT cubic 1 dims ! j = p1 ! j"
    "CUBIC_PT cubic 2 dims ! j = p2 ! j" "CUBIC_PT cubic 3 dims ! j = p3 ! j"
    if "j < dims" for j
    using that len by (simp_all add: CUBIC_PT_def cubic_def nth_append)
  have vals: "p0 ! j = points_offset ! j" "p3 ! j = drop dims points_offset ! j"
    "p1 ! j = points_offset ! j - tan_l ! j * dist"
    "p2 ! j = drop dims points_offset ! j + tan_r ! j * dist"
    if "j < dims" for j
    using that by (simp_all add: p0_def p1_def p2_def p3_def copy_vnvn_def
        msub_vn_vnvn_fl_def madd_vn_vnvn_fl_def)
  show ?thesis
    apply (rule exI[of _ cubic])
    using fit len pts vals dist by (simp add: cubic_def Let_def)
qed

theorem fit_cubic_to_points_two_points_witness:
  "\<exists>cubic. fit_cubic_to_points ref_ops [Fin 0, Fin 3] 2 [Fin 0, Fin 3] [Fin (- 1)] [Fin (- 1)]
              (Fin (1 / 10 ^ 6)) 1 \<lparr>items = [], len = 0, list_dims = 1\<rparr>
            = Inr \<lparr>items = [cubic], len = 1, list_dims = 1\<rparr>
     \<and> orig_span cubic = 1 \<and> pt_data cubic = [Fin 0, Fin 1, Fin 2, Fin 3]"
proof -
  obtain cubic where c:
    "fit_cubic_to_points ref_ops [Fin 0, Fin 3] 2 [Fin 0, Fin 3] [Fin (- 1)] [Fin (- 1)]
              (Fin (1 / 10 ^ 6)) 1 \<lparr>items = [], len = 0, list_dims = 1\<rparr>
            = Inr \<lparr>items = [cubic], len = 1, list_dims = 1\<rparr>"
    "orig_span cubic = 1" "length (pt_data cubic) = 4"
    "CUBIC_PT cubic 0 1 ! 0 = Fin 0" "CUBIC_PT cubic 1 1 ! 0 = Fin 1"
    "CUBIC_PT cubic 2 1 ! 0 = Fin 2" "CUBIC_PT cubic 3 1 ! 0 = Fin 3"
    using fit_cubic_to_points_two_points[of ref_ops "[Fin 0, Fin 3]" "[Fin 0, Fin 3]" "[Fin (- 1)]" "[Fin (- 1)]"
        "Fin (1 / 10 ^ 6)" 1 "\<lparr>items = [], len = 0, list_dims = 1\<rparr>"]
    by (auto simp: Let_def len_vnvn_def len_squared_vnvn_def sq_def sqrt_9)
  from c(3) obtain a b c' d where "pt_data cubic = [a, b, c', d]"
    by (auto simp: length_Suc_conv eval_nat_numeral)
  with c show ?thesis
    by (auto simp: CUBIC_PT_def)
qed

section \<open>The sum of the spans\<close>




section \<open>The float entry point\<close>



end
